theory Spec2Isabelle
  imports Main
begin

section \<open>boost::scope::unique\_resource: the embedding\<close>

text \<open>
  The header \<^verbatim>\<open>include/boost/scope/unique_resource.hpp\<close> is a class template over
  three types: \<^verbatim>\<open>Resource\<close>, \<^verbatim>\<open>Deleter\<close> and \<^verbatim>\<open>Traits\<close>. The template
  arguments are modelled as records that say what \<^verbatim>\<open><type_traits>\<close> reports about
  the type (the \<open>nothrow_...\<close> fields, on which the header dispatches at compile time)
  and how the type's own operations behave at run time (which values make a copy, an
  assignment, a swap or a deleter call throw, what a moved-from object holds, and what
  a swap that throws leaves in its two operands).

  Conventions of the embedding:
  \<^item> \<^verbatim>\<open>Resource\<close> and \<^verbatim>\<open>Deleter\<close> are object types (not lvalue references), and
    constructor arguments are rvalues of these types;
  \<^item> an exception is a value of type \<open>exn\<close>; a copy construction or an assignment
    that throws leaves its operands as they were, while a swap that throws leaves in
    its operands what the type says (\<open>swap_failure_leaves\<close>);
  \<^item> an exception that meets the \<^verbatim>\<open>noexcept\<close> specification of the move
    assignment operator ends the program (\<^verbatim>\<open>std::terminate\<close>);
  \<^item> an operation that \<^verbatim>\<open><type_traits>\<close> reports as nothrow does not throw;
  \<^item> a successful copy or move gives the destination the value of the source;
  \<^item> every invocation of a deleter is appended to a log of (deleter, resource) pairs,
    also when the invocation throws; an invocation changes neither the resource it is
    given nor the deleter object.
\<close>

subsection \<open>Exceptions and the log of deleter invocations\<close>

datatype exn = Construction_failed | Assignment_failed | Swap_failed | Deleter_failed

text \<open>
  How a call of a function with a conditional \<^verbatim>\<open>noexcept\<close> specification ends: it
  returns, an exception reaches the caller, or \<^verbatim>\<open>std::terminate\<close> is called.
\<close>

datatype completion = Returned | Thrown exn | Terminated

type_synonym ('r, 'd) calls = "('d \<times> 'r) list"

subsection \<open>Template arguments\<close>

record 'a value_type =
  nothrow_move_constructible :: bool
  nothrow_copy_constructible :: bool
  copy_ctor_throws :: "'a \<Rightarrow> bool"
  moved_from :: "'a \<Rightarrow> 'a"
  nothrow_move_assignable :: bool
  nothrow_copy_assignable :: bool
  copy_assign_throws :: "'a \<Rightarrow> 'a \<Rightarrow> bool"
  nothrow_swappable :: bool
  swap_throws :: "'a \<Rightarrow> 'a \<Rightarrow> bool"
  swap_failure_leaves :: "'a \<Rightarrow> 'a \<Rightarrow> 'a \<times> 'a"

record 'r resource_type = "'r value_type" +
  value_initialized :: 'r
  default_ctor_throws :: bool

record ('r, 'd) deleter_type = "'d value_type" +
  call_noexcept :: bool
  call_throws :: "'d \<Rightarrow> 'r \<Rightarrow> bool"

text \<open>
  A \<^verbatim>\<open>Traits\<close> class: \<open>has_make_default\<close> and \<open>has_is_allocated\<close> say whether the
  static members exist (the detection idiom of \<^verbatim>\<open>has_custom_default_impl\<close> and
  \<^verbatim>\<open>has_deallocated_state_impl\<close>); \<open>tr_make_default\<close> and \<open>tr_is_allocated\<close> are
  the members themselves, and are read only where the member exists.
\<close>

record 'r traits =
  has_make_default :: bool
  resource_constructible_from_default :: bool
  tr_make_default :: 'r
  make_default_noexcept :: bool
  resource_nothrow_assignable_from_default :: bool
  has_is_allocated :: bool
  tr_is_allocated :: "'r \<Rightarrow> bool"

definition has_custom_default :: "'r traits \<Rightarrow> bool" where
  "has_custom_default Tr \<longleftrightarrow> has_make_default Tr \<and> resource_constructible_from_default Tr"

definition has_deallocated_state :: "'r traits \<Rightarrow> bool" where
  "has_deallocated_state Tr \<longleftrightarrow> has_is_allocated Tr"

definition use_deallocated_state :: "'r traits \<Rightarrow> bool" where
  "use_deallocated_state Tr =
     (if has_deallocated_state Tr \<and> has_custom_default Tr
      then make_default_noexcept Tr \<and> resource_nothrow_assignable_from_default Tr
      else False)"

text \<open>
  The documented requirement on a traits class (the class comment of
  \<^verbatim>\<open>unique_resource\<close>): \<^verbatim>\<open>is_allocated(make_default())\<close> is \<^verbatim>\<open>false\<close>.
\<close>

definition conforming :: "'r traits \<Rightarrow> bool" where
  "conforming Tr \<longleftrightarrow> \<not> tr_is_allocated Tr (tr_make_default Tr)"

subsection \<open>Operations of the resource and deleter types\<close>

definition nothrow_constructible :: "('a, 'z) value_type_scheme \<Rightarrow> bool" where
  "nothrow_constructible V \<longleftrightarrow> nothrow_move_constructible V \<or> nothrow_copy_constructible V"

definition nothrow_assignable :: "('a, 'z) value_type_scheme \<Rightarrow> bool" where
  "nothrow_assignable V \<longleftrightarrow> nothrow_move_assignable V \<or> nothrow_copy_assignable V"

text \<open>
  Modelled from the spec: \<^verbatim>\<open>detail::move_or_copy_construct_ref\<close> (its header is not
  among the sources). As the documentation of the constructors says, the object is
  move-constructed when its type is nothrow move-constructible and copy-constructed
  otherwise. The result is the new object and what the source holds afterwards.
\<close>

definition move_or_copy_construct :: "('a, 'z) value_type_scheme \<Rightarrow> 'a \<Rightarrow> exn + 'a \<times> 'a" where
  "move_or_copy_construct V x =
     (if nothrow_move_constructible V then Inr (x, moved_from V x)
      else if \<not> nothrow_copy_constructible V \<and> copy_ctor_throws V x then Inl Construction_failed
      else Inr (x, x))"

text \<open>
  Modelled from the spec: \<^verbatim>\<open>detail::move_or_copy_assign_ref\<close> (its header is not
  among the sources): move assignment when it is nothrow, copy assignment otherwise.
  The first argument is the old value of the target.
\<close>

definition move_or_copy_assign :: "('a, 'z) value_type_scheme \<Rightarrow> 'a \<Rightarrow> 'a \<Rightarrow> exn + 'a \<times> 'a" where
  "move_or_copy_assign V old x =
     (if nothrow_move_assignable V then Inr (x, moved_from V x)
      else if \<not> nothrow_copy_assignable V \<and> copy_assign_throws V old x then Inl Assignment_failed
      else Inr (x, x))"

text \<open>
  \<^verbatim>\<open>boost::core::invoke_swap(a, b)\<close> (Boost.Core) calls the swap of the type, or
  \<^verbatim>\<open>std::swap\<close>. A swap that throws may have changed its operands already (as
  \<^verbatim>\<open>std::swap\<close> has when the last of its three moves or copies throws), so the
  failure carries what the two operands hold afterwards.
\<close>

definition invoke_swap ::
  "('a, 'z) value_type_scheme \<Rightarrow> 'a \<Rightarrow> 'a \<Rightarrow> (exn \<times> 'a \<times> 'a) + 'a \<times> 'a" where
  "invoke_swap V a b =
     (if \<not> nothrow_swappable V \<and> swap_throws V a b
      then Inl (Swap_failed, swap_failure_leaves V a b)
      else Inr (b, a))"

definition invoke_deleter ::
  "('r, 'd) deleter_type \<Rightarrow> 'd \<Rightarrow> 'r \<Rightarrow> ('r, 'd) calls \<Rightarrow> exn option \<times> ('r, 'd) calls" where
  "invoke_deleter D d r cs =
     (if \<not> call_noexcept D \<and> call_throws D d r then Some Deleter_failed else None, cs @ [(d, r)])"

text \<open>
  A handler \<^verbatim>\<open>catch (...) { del(res); }\<close> of a function-try-block, or one that ends in
  \<^verbatim>\<open>throw;\<close>: the deleter runs, and the caught exception \<open>e\<close> propagates unless the
  deleter throws one of its own.
\<close>

definition invoke_in_handler ::
  "('r, 'd) deleter_type \<Rightarrow> 'd \<Rightarrow> 'r \<Rightarrow> exn \<Rightarrow> ('r, 'd) calls \<Rightarrow> exn \<times> ('r, 'd) calls" where
  "invoke_in_handler D d r e cs =
     (case invoke_deleter D d r cs of
        (None, cs') \<Rightarrow> (e, cs')
      | (Some e', cs') \<Rightarrow> (e', cs'))"

subsection \<open>resource\_holder and deleter\_holder\<close>

text \<open>
  Both holders derive from \<^verbatim>\<open>detail::compact_storage\<close> (its header is not among
  the sources), which stores the one object and hands it out through \<^verbatim>\<open>get()\<close>; a
  holder is modelled by the object it stores.

  The default constructor of \<^verbatim>\<open>resource_holder\<close>: the custom default of the traits
  if there is one, a value-initialized resource otherwise.
\<close>

definition resource_holder_default :: "'r resource_type \<Rightarrow> 'r option \<Rightarrow> exn + 'r" where
  "resource_holder_default R custom =
     (if default_ctor_throws R then Inl Construction_failed
      else case custom of Some v \<Rightarrow> Inr v | None \<Rightarrow> Inr (value_initialized R))"

text \<open>
  \<^verbatim>\<open>resource_holder(R&& res, D&& del, bool allocated)\<close>: the \<^verbatim>\<open>std::true_type\<close>
  overload has no handler, the \<^verbatim>\<open>std::false_type\<close> one calls \<^verbatim>\<open>del(res)\<close> on the
  argument when \<open>allocated\<close>.
\<close>

definition resource_holder_ctor ::
  "'r resource_type \<Rightarrow> ('r, 'd) deleter_type \<Rightarrow> 'r \<Rightarrow> 'd \<Rightarrow> bool \<Rightarrow> ('r, 'd) calls
     \<Rightarrow> (exn + 'r \<times> 'r) \<times> ('r, 'd) calls" where
  "resource_holder_ctor R D res del allocated cs =
     (case move_or_copy_construct R res of
        Inr v \<Rightarrow> (Inr v, cs)
      | Inl e \<Rightarrow>
          if nothrow_constructible R then (Inl e, cs)
          else if allocated then (case invoke_in_handler D del res e cs of (e', cs') \<Rightarrow> (Inl e', cs'))
          else (Inl e, cs))"

text \<open>
  \<^verbatim>\<open>deleter_holder(D&& del, resource_type& res, bool allocated)\<close>: here \<open>res\<close> is the
  resource already stored in the object under construction.
\<close>

definition deleter_holder_ctor ::
  "('r, 'd) deleter_type \<Rightarrow> 'd \<Rightarrow> 'r \<Rightarrow> bool \<Rightarrow> ('r, 'd) calls
     \<Rightarrow> (exn + 'd \<times> 'd) \<times> ('r, 'd) calls" where
  "deleter_holder_ctor D del res allocated cs =
     (case move_or_copy_construct D del of
        Inr v \<Rightarrow> (Inr v, cs)
      | Inl e \<Rightarrow>
          if nothrow_constructible D then (Inl e, cs)
          else if allocated then (case invoke_in_handler D del res e cs of (e', cs') \<Rightarrow> (Inl e', cs'))
          else (Inl e, cs))"

subsection \<open>unique\_resource\_data, primary template: a boolean flag\<close>

record ('r, 'd) holders =
  resource :: 'r
  deleter :: 'd

record ('r, 'd) unique_resource_data = "('r, 'd) holders" +
  m_allocated :: bool

definition is_allocated :: "('r, 'd) unique_resource_data \<Rightarrow> bool" where
  "is_allocated g = m_allocated g"

definition set_deallocated :: "('r, 'd) unique_resource_data \<Rightarrow> ('r, 'd) unique_resource_data" where
  "set_deallocated g = g\<lparr>m_allocated := False\<rparr>"

definition assign_resource ::
  "'r resource_type \<Rightarrow> ('r, 'd) unique_resource_data \<Rightarrow> 'r \<Rightarrow> exn + ('r, 'd) unique_resource_data" where
  "assign_resource R g res =
     (case move_or_copy_assign R (resource g) res of
        Inl e \<Rightarrow> Inl e
      | Inr (v, _) \<Rightarrow> Inr (g\<lparr>resource := v, m_allocated := True\<rparr>))"

text \<open>\<^verbatim>\<open>unique_resource_data(default_resource_t, D&& del)\<close>\<close>

definition data_ctor_default ::
  "'r resource_type \<Rightarrow> ('r, 'd) deleter_type \<Rightarrow> 'r option \<Rightarrow> 'd \<Rightarrow> exn + ('r, 'd) unique_resource_data" where
  "data_ctor_default R D custom del =
     (case resource_holder_default R custom of
        Inl e \<Rightarrow> Inl e
      | Inr r \<Rightarrow>
          (case move_or_copy_construct D del of
             Inl e \<Rightarrow> Inl e
           | Inr (d, _) \<Rightarrow> Inr \<lparr>resource = r, deleter = d, m_allocated = False\<rparr>))"

text \<open>\<^verbatim>\<open>unique_resource_data(R&& res, D&& del)\<close>\<close>

definition data_ctor ::
  "'r resource_type \<Rightarrow> ('r, 'd) deleter_type \<Rightarrow> 'r \<Rightarrow> 'd \<Rightarrow> ('r, 'd) calls
     \<Rightarrow> (exn + ('r, 'd) unique_resource_data) \<times> ('r, 'd) calls" where
  "data_ctor R D res del cs =
     (case resource_holder_ctor R D res del True cs of
        (Inl e, cs1) \<Rightarrow> (Inl e, cs1)
      | (Inr (r, _), cs1) \<Rightarrow>
          (case deleter_holder_ctor D del r True cs1 of
             (Inl e, cs2) \<Rightarrow> (Inl e, cs2)
           | (Inr (d, _), cs2) \<Rightarrow> (Inr \<lparr>resource = r, deleter = d, m_allocated = True\<rparr>, cs2)))"

text \<open>
  The move constructor \<^verbatim>\<open>unique_resource_data(unique_resource_data&& that, tag)\<close>. The
  result is the new object (or the exception), the move source afterwards, and the log.
  \<open>move_ctor_true\<close> is the overload for a deleter that is nothrow constructible,
  \<open>move_ctor_false\<close> the function-try-block.
\<close>

definition move_ctor_true ::
  "'r resource_type \<Rightarrow> ('r, 'd) deleter_type \<Rightarrow> ('r, 'd) unique_resource_data \<Rightarrow> ('r, 'd) calls
     \<Rightarrow> (exn + ('r, 'd) unique_resource_data) \<times> ('r, 'd) unique_resource_data \<times> ('r, 'd) calls" where
  "move_ctor_true R D that cs =
     (case move_or_copy_construct R (resource that) of
        Inl e \<Rightarrow> (Inl e, that, cs)
      | Inr (r, r_src) \<Rightarrow>
          (case deleter_holder_ctor D (deleter that) r False cs of
             (Inl e, cs1) \<Rightarrow> (Inl e, that\<lparr>resource := r_src\<rparr>, cs1)
           | (Inr (d, d_src), cs1) \<Rightarrow>
               (Inr \<lparr>resource = r, deleter = d, m_allocated = m_allocated that\<rparr>,
                that\<lparr>resource := r_src, deleter := d_src, m_allocated := False\<rparr>, cs1)))"

definition move_ctor_false ::
  "'r resource_type \<Rightarrow> ('r, 'd) deleter_type \<Rightarrow> ('r, 'd) unique_resource_data \<Rightarrow> ('r, 'd) calls
     \<Rightarrow> (exn + ('r, 'd) unique_resource_data) \<times> ('r, 'd) unique_resource_data \<times> ('r, 'd) calls" where
  "move_ctor_false R D that cs =
     (case move_or_copy_construct R (resource that) of
        Inl e \<Rightarrow>
          (Inl e, if nothrow_move_constructible R then that\<lparr>m_allocated := False\<rparr> else that, cs)
      | Inr (r, r_src) \<Rightarrow>
          (case deleter_holder_ctor D (deleter that) r
                  (nothrow_move_constructible R \<and> m_allocated that) cs of
             (Inl e, cs1) \<Rightarrow>
               (Inl e,
                if nothrow_move_constructible R then that\<lparr>resource := r_src, m_allocated := False\<rparr>
                else that\<lparr>resource := r_src\<rparr>, cs1)
           | (Inr (d, d_src), cs1) \<Rightarrow>
               (Inr \<lparr>resource = r, deleter = d, m_allocated = m_allocated that\<rparr>,
                that\<lparr>resource := r_src, deleter := d_src, m_allocated := False\<rparr>, cs1)))"

definition move_ctor ::
  "'r resource_type \<Rightarrow> ('r, 'd) deleter_type \<Rightarrow> ('r, 'd) unique_resource_data \<Rightarrow> ('r, 'd) calls
     \<Rightarrow> (exn + ('r, 'd) unique_resource_data) \<times> ('r, 'd) unique_resource_data \<times> ('r, 'd) calls" where
  "move_ctor R D that cs =
     (if nothrow_constructible D then move_ctor_true R D that cs else move_ctor_false R D that cs)"

text \<open>
  The move assignment \<^verbatim>\<open>operator= (unique_resource_data&& that)\<close> through
  \<^verbatim>\<open>assign(that, tag)\<close>, the tag being whether the deleter is nothrow move-assignable.
  The result is the exception if any, this object and the source afterwards.
\<close>

definition assign_true ::
  "'r resource_type \<Rightarrow> ('r, 'd) deleter_type \<Rightarrow> ('r, 'd) unique_resource_data \<Rightarrow> ('r, 'd) unique_resource_data
     \<Rightarrow> exn option \<times> ('r, 'd) unique_resource_data \<times> ('r, 'd) unique_resource_data" where
  "assign_true R D this that =
     (case move_or_copy_assign R (resource this) (resource that) of
        Inl e \<Rightarrow> (Some e, this, that)
      | Inr (r, r_src) \<Rightarrow>
          (case move_or_copy_assign D (deleter this) (deleter that) of
             Inl e \<Rightarrow> (Some e, this\<lparr>resource := r\<rparr>, that\<lparr>resource := r_src\<rparr>)
           | Inr (d, d_src) \<Rightarrow>
               (None, this\<lparr>resource := r, deleter := d, m_allocated := m_allocated that\<rparr>,
                that\<lparr>resource := r_src, deleter := d_src, m_allocated := False\<rparr>)))"

definition assign_false ::
  "'r resource_type \<Rightarrow> ('r, 'd) deleter_type \<Rightarrow> ('r, 'd) unique_resource_data \<Rightarrow> ('r, 'd) unique_resource_data
     \<Rightarrow> exn option \<times> ('r, 'd) unique_resource_data \<times> ('r, 'd) unique_resource_data" where
  "assign_false R D this that =
     (case move_or_copy_assign D (deleter this) (deleter that) of
        Inl e \<Rightarrow> (Some e, this, that)
      | Inr (d, d_src) \<Rightarrow>
          (case move_or_copy_assign R (resource this) (resource that) of
             Inl e \<Rightarrow> (Some e, this\<lparr>deleter := d\<rparr>, that\<lparr>deleter := d_src\<rparr>)
           | Inr (r, r_src) \<Rightarrow>
               (None, this\<lparr>resource := r, deleter := d, m_allocated := m_allocated that\<rparr>,
                that\<lparr>resource := r_src, deleter := d_src, m_allocated := False\<rparr>)))"

definition assign ::
  "'r resource_type \<Rightarrow> ('r, 'd) deleter_type \<Rightarrow> ('r, 'd) unique_resource_data \<Rightarrow> ('r, 'd) unique_resource_data
     \<Rightarrow> exn option \<times> ('r, 'd) unique_resource_data \<times> ('r, 'd) unique_resource_data" where
  "assign R D this that =
     (if nothrow_move_assignable D then assign_true R D this that else assign_false R D this that)"

text \<open>
  \<^verbatim>\<open>swap_impl(that, tag1, tag2)\<close>: \<open>tag1\<close> says that the resource is nothrow swappable,
  \<open>tag2\<close> that both the resource and the deleter are. The member \<^verbatim>\<open>swap\<close> is enabled
  only under \<open>swap_requires\<close>. A handler swaps the part that was swapped first back and
  rethrows; the part whose swap threw stays as that swap left it.
\<close>

definition swap_requires :: "'r resource_type \<Rightarrow> ('r, 'd) deleter_type \<Rightarrow> bool" where
  "swap_requires R D \<longleftrightarrow> nothrow_swappable R \<or> nothrow_swappable D"

definition swap_impl_true_true ::
  "'r resource_type \<Rightarrow> ('r, 'd) deleter_type \<Rightarrow> ('r, 'd) unique_resource_data \<Rightarrow> ('r, 'd) unique_resource_data
     \<Rightarrow> exn option \<times> ('r, 'd) unique_resource_data \<times> ('r, 'd) unique_resource_data" where
  "swap_impl_true_true R D this that =
     (case invoke_swap R (resource this) (resource that) of
        Inl (e, ra, rb) \<Rightarrow> (Some e, this\<lparr>resource := ra\<rparr>, that\<lparr>resource := rb\<rparr>)
      | Inr (ra, rb) \<Rightarrow>
          (case invoke_swap D (deleter this) (deleter that) of
             Inl (e, da, db) \<Rightarrow>
               (Some e, this\<lparr>resource := ra, deleter := da\<rparr>,
                that\<lparr>resource := rb, deleter := db\<rparr>)
           | Inr (da, db) \<Rightarrow>
               (None, this\<lparr>resource := ra, deleter := da, m_allocated := m_allocated that\<rparr>,
                that\<lparr>resource := rb, deleter := db, m_allocated := m_allocated this\<rparr>)))"

definition swap_impl_true_false ::
  "'r resource_type \<Rightarrow> ('r, 'd) deleter_type \<Rightarrow> ('r, 'd) unique_resource_data \<Rightarrow> ('r, 'd) unique_resource_data
     \<Rightarrow> exn option \<times> ('r, 'd) unique_resource_data \<times> ('r, 'd) unique_resource_data" where
  "swap_impl_true_false R D this that =
     (case invoke_swap R (resource this) (resource that) of
        Inl (e, ra, rb) \<Rightarrow> (Some e, this\<lparr>resource := ra\<rparr>, that\<lparr>resource := rb\<rparr>)
      | Inr (ra, rb) \<Rightarrow>
          (case invoke_swap D (deleter this) (deleter that) of
             Inl (e, da, db) \<Rightarrow>
               (case invoke_swap R ra rb of
                  Inl (e', ra', rb') \<Rightarrow>
                    (Some e', this\<lparr>resource := ra', deleter := da\<rparr>,
                     that\<lparr>resource := rb', deleter := db\<rparr>)
                | Inr (ra', rb') \<Rightarrow>
                    (Some e, this\<lparr>resource := ra', deleter := da\<rparr>,
                     that\<lparr>resource := rb', deleter := db\<rparr>))
           | Inr (da, db) \<Rightarrow>
               (None, this\<lparr>resource := ra, deleter := da, m_allocated := m_allocated that\<rparr>,
                that\<lparr>resource := rb, deleter := db, m_allocated := m_allocated this\<rparr>)))"

definition swap_impl_false_false ::
  "'r resource_type \<Rightarrow> ('r, 'd) deleter_type \<Rightarrow> ('r, 'd) unique_resource_data \<Rightarrow> ('r, 'd) unique_resource_data
     \<Rightarrow> exn option \<times> ('r, 'd) unique_resource_data \<times> ('r, 'd) unique_resource_data" where
  "swap_impl_false_false R D this that =
     (case invoke_swap D (deleter this) (deleter that) of
        Inl (e, da, db) \<Rightarrow> (Some e, this\<lparr>deleter := da\<rparr>, that\<lparr>deleter := db\<rparr>)
      | Inr (da, db) \<Rightarrow>
          (case invoke_swap R (resource this) (resource that) of
             Inl (e, ra, rb) \<Rightarrow>
               (case invoke_swap D da db of
                  Inl (e', da', db') \<Rightarrow>
                    (Some e', this\<lparr>resource := ra, deleter := da'\<rparr>,
                     that\<lparr>resource := rb, deleter := db'\<rparr>)
                | Inr (da', db') \<Rightarrow>
                    (Some e, this\<lparr>resource := ra, deleter := da'\<rparr>,
                     that\<lparr>resource := rb, deleter := db'\<rparr>))
           | Inr (ra, rb) \<Rightarrow>
               (None, this\<lparr>resource := ra, deleter := da, m_allocated := m_allocated that\<rparr>,
                that\<lparr>resource := rb, deleter := db, m_allocated := m_allocated this\<rparr>)))"

definition swap ::
  "'r resource_type \<Rightarrow> ('r, 'd) deleter_type \<Rightarrow> ('r, 'd) unique_resource_data \<Rightarrow> ('r, 'd) unique_resource_data
     \<Rightarrow> exn option \<times> ('r, 'd) unique_resource_data \<times> ('r, 'd) unique_resource_data" where
  "swap R D this that =
     (if nothrow_swappable R then
        if nothrow_swappable R \<and> nothrow_swappable D then swap_impl_true_true R D this that
        else swap_impl_true_false R D this that
      else swap_impl_false_false R D this that)"

subsection \<open>unique\_resource over the primary template\<close>

text \<open>
  The class has the one member \<^verbatim>\<open>m_data\<close>, so a guard is its data. Its constructors
  \<^verbatim>\<open>unique_resource(R&& res, D&& del)\<close>, \<^verbatim>\<open>unique_resource(default_resource_t, D&& del)\<close>
  and \<^verbatim>\<open>unique_resource(unique_resource&& that)\<close> are \<open>data_ctor\<close>,
  \<open>data_ctor_default\<close> and \<open>move_ctor\<close>; \<^verbatim>\<open>allocated()\<close> is \<open>is_allocated\<close>.
\<close>

definition release ::
  "('r, 'd) unique_resource_data \<Rightarrow> ('r, 'd) calls \<Rightarrow> ('r, 'd) unique_resource_data \<times> ('r, 'd) calls" where
  "release g cs = (set_deallocated g, cs)"

definition reset ::
  "('r, 'd) deleter_type \<Rightarrow> ('r, 'd) unique_resource_data \<Rightarrow> ('r, 'd) calls
     \<Rightarrow> exn option \<times> ('r, 'd) unique_resource_data \<times> ('r, 'd) calls" where
  "reset D g cs =
     (if is_allocated g then
        (case invoke_deleter D (deleter g) (resource g) cs of
           (Some e, cs') \<Rightarrow> (Some e, g, cs')
         | (None, cs') \<Rightarrow> (None, set_deallocated g, cs'))
      else (None, g, cs))"

text \<open>\<^verbatim>\<open>~unique_resource()\<close>: the result keeps the state in which \<^verbatim>\<open>reset()\<close> left the guard.\<close>

definition destructor ::
  "('r, 'd) deleter_type \<Rightarrow> ('r, 'd) unique_resource_data \<Rightarrow> ('r, 'd) calls
     \<Rightarrow> exn option \<times> ('r, 'd) unique_resource_data \<times> ('r, 'd) calls" where
  "destructor D g cs = reset D g cs"

text \<open>
  \<^verbatim>\<open>reset(R&& res)\<close> through \<^verbatim>\<open>reset_impl(res, tag)\<close>: the tag is \<^verbatim>\<open>std::true_type\<close>
  when the deleter call is \<^verbatim>\<open>noexcept\<close> and the resource is nothrow assignable;
  otherwise the body runs in a \<^verbatim>\<open>try\<close> block whose handler invokes the stored deleter
  on \<open>res\<close> and rethrows.
\<close>

definition reset_impl_body ::
  "'r resource_type \<Rightarrow> ('r, 'd) deleter_type \<Rightarrow> ('r, 'd) unique_resource_data \<Rightarrow> 'r \<Rightarrow> ('r, 'd) calls
     \<Rightarrow> exn option \<times> ('r, 'd) unique_resource_data \<times> ('r, 'd) calls" where
  "reset_impl_body R D g res cs =
     (case reset D g cs of
        (Some e, g1, cs1) \<Rightarrow> (Some e, g1, cs1)
      | (None, g1, cs1) \<Rightarrow>
          (case assign_resource R g1 res of
             Inl e \<Rightarrow> (Some e, g1, cs1)
           | Inr g2 \<Rightarrow> (None, g2, cs1)))"

definition reset_impl ::
  "'r resource_type \<Rightarrow> ('r, 'd) deleter_type \<Rightarrow> ('r, 'd) unique_resource_data \<Rightarrow> 'r \<Rightarrow> ('r, 'd) calls
     \<Rightarrow> exn option \<times> ('r, 'd) unique_resource_data \<times> ('r, 'd) calls" where
  "reset_impl R D g res cs =
     (if call_noexcept D \<and> nothrow_assignable R then reset_impl_body R D g res cs
      else
        (case reset_impl_body R D g res cs of
           (None, g', cs') \<Rightarrow> (None, g', cs')
         | (Some e, g', cs') \<Rightarrow>
             (case invoke_in_handler D (deleter g') res e cs' of (e', cs'') \<Rightarrow> (Some e', g', cs''))))"

text \<open>
  \<^verbatim>\<open>operator= (unique_resource&& that)\<close>: \<^verbatim>\<open>reset()\<close>, then the data's move
  assignment. The operator is declared
  \<^verbatim>\<open>noexcept(std::is_nothrow_move_assignable< data >::value)\<close>, and the data's
  \<^verbatim>\<open>operator=\<close> is \<^verbatim>\<open>noexcept\<close> when the resource and the deleter are both
  nothrow assignable; the deleter call is not part of the specification. So an
  exception that leaves the body, also one thrown by the deleter in \<^verbatim>\<open>reset()\<close>,
  reaches the caller only when the operator is not \<^verbatim>\<open>noexcept\<close>, and calls
  \<^verbatim>\<open>std::terminate\<close> otherwise. The states returned with \<open>Terminated\<close> are those
  at the call of \<^verbatim>\<open>std::terminate\<close>.
\<close>

definition nothrow_move_assignable_data :: "'r resource_type \<Rightarrow> ('r, 'd) deleter_type \<Rightarrow> bool" where
  "nothrow_move_assignable_data R D \<longleftrightarrow> nothrow_assignable R \<and> nothrow_assignable D"

definition leave :: "bool \<Rightarrow> exn option \<Rightarrow> completion" where
  "leave is_noexcept x =
     (case x of
        None \<Rightarrow> Returned
      | Some e \<Rightarrow> if is_noexcept then Terminated else Thrown e)"

definition move_assign_body ::
  "'r resource_type \<Rightarrow> ('r, 'd) deleter_type \<Rightarrow> ('r, 'd) unique_resource_data \<Rightarrow> ('r, 'd) unique_resource_data
     \<Rightarrow> ('r, 'd) calls
     \<Rightarrow> exn option \<times> ('r, 'd) unique_resource_data \<times> ('r, 'd) unique_resource_data \<times> ('r, 'd) calls" where
  "move_assign_body R D this that cs =
     (case reset D this cs of
        (Some e, this1, cs1) \<Rightarrow> (Some e, this1, that, cs1)
      | (None, this1, cs1) \<Rightarrow>
          (case assign R D this1 that of (r, this2, that2) \<Rightarrow> (r, this2, that2, cs1)))"

definition move_assign ::
  "'r resource_type \<Rightarrow> ('r, 'd) deleter_type \<Rightarrow> ('r, 'd) unique_resource_data \<Rightarrow> ('r, 'd) unique_resource_data
     \<Rightarrow> ('r, 'd) calls
     \<Rightarrow> completion \<times> ('r, 'd) unique_resource_data \<times> ('r, 'd) unique_resource_data \<times> ('r, 'd) calls" where
  "move_assign R D this that cs =
     (case move_assign_body R D this that cs of
        (x, this', that', cs') \<Rightarrow> (leave (nothrow_move_assignable_data R D) x, this', that', cs'))"

text \<open>
  \<^verbatim>\<open>make_unique_resource_checked(res, invalid, del)\<close> returns a
  \<^verbatim>\<open>unique_resource< Resource, Deleter >\<close>: its traits are \<^verbatim>\<open>void\<close>, so the data is
  the primary template and the default resource is value-initialized.
\<close>

definition make_unique_resource_checked ::
  "'r resource_type \<Rightarrow> ('r, 'd) deleter_type \<Rightarrow> 'r \<Rightarrow> 'r \<Rightarrow> 'd \<Rightarrow> ('r, 'd) calls
     \<Rightarrow> (exn + ('r, 'd) unique_resource_data) \<times> ('r, 'd) calls" where
  "make_unique_resource_checked R D res invalid del cs =
     (if \<not> (res = invalid) then data_ctor R D res del cs
      else (data_ctor_default R D None del, cs))"

subsection \<open>unique\_resource\_data, the specialization that derives the state from the traits\<close>

text \<open>
  \<^verbatim>\<open>unique_resource_data< Resource, Deleter, Traits, true >\<close>, selected when
  \<open>use_deallocated_state\<close> holds, has the two holders and no other member; its
  operations carry the suffix \<open>_traits\<close>.
\<close>

definition is_allocated_traits :: "'r traits \<Rightarrow> ('r, 'd) holders \<Rightarrow> bool" where
  "is_allocated_traits Tr g = tr_is_allocated Tr (resource g)"

definition set_deallocated_traits :: "'r traits \<Rightarrow> ('r, 'd) holders \<Rightarrow> ('r, 'd) holders" where
  "set_deallocated_traits Tr g = g\<lparr>resource := tr_make_default Tr\<rparr>"

definition assign_resource_traits :: "'r resource_type \<Rightarrow> ('r, 'd) holders \<Rightarrow> 'r \<Rightarrow> exn + ('r, 'd) holders" where
  "assign_resource_traits R g res =
     (case move_or_copy_assign R (resource g) res of
        Inl e \<Rightarrow> Inl e
      | Inr (v, _) \<Rightarrow> Inr (g\<lparr>resource := v\<rparr>))"

text \<open>
  \<^verbatim>\<open>unique_resource_data(R&& res, D&& del)\<close> delegates to the private constructor with
  \<^verbatim>\<open>traits_type::is_allocated(res)\<close> as \<open>allocated\<close>.
\<close>

definition data_ctor_traits ::
  "'r resource_type \<Rightarrow> ('r, 'd) deleter_type \<Rightarrow> 'r traits \<Rightarrow> 'r \<Rightarrow> 'd \<Rightarrow> ('r, 'd) calls \<Rightarrow> (exn + ('r, 'd) holders) \<times> ('r, 'd) calls" where
  "data_ctor_traits R D Tr res del cs =
     (let allocated = tr_is_allocated Tr res in
      case resource_holder_ctor R D res del allocated cs of
        (Inl e, cs1) \<Rightarrow> (Inl e, cs1)
      | (Inr (r, _), cs1) \<Rightarrow>
          (case deleter_holder_ctor D del r allocated cs1 of
             (Inl e, cs2) \<Rightarrow> (Inl e, cs2)
           | (Inr (d, _), cs2) \<Rightarrow> (Inr \<lparr>resource = r, deleter = d\<rparr>, cs2)))"

definition move_ctor_traits_true ::
  "'r resource_type \<Rightarrow> ('r, 'd) deleter_type \<Rightarrow> 'r traits \<Rightarrow> ('r, 'd) holders \<Rightarrow> ('r, 'd) calls \<Rightarrow> (exn + ('r, 'd) holders) \<times> ('r, 'd) holders \<times> ('r, 'd) calls" where
  "move_ctor_traits_true R D Tr that cs =
     (case move_or_copy_construct R (resource that) of
        Inl e \<Rightarrow> (Inl e, that, cs)
      | Inr (r, r_src) \<Rightarrow>
          (case deleter_holder_ctor D (deleter that) r False cs of
             (Inl e, cs1) \<Rightarrow> (Inl e, that\<lparr>resource := r_src\<rparr>, cs1)
           | (Inr (d, d_src), cs1) \<Rightarrow>
               (Inr \<lparr>resource = r, deleter = d\<rparr>,
                set_deallocated_traits Tr (that\<lparr>resource := r_src, deleter := d_src\<rparr>), cs1)))"

definition move_ctor_traits_false ::
  "'r resource_type \<Rightarrow> ('r, 'd) deleter_type \<Rightarrow> 'r traits \<Rightarrow> ('r, 'd) holders \<Rightarrow> ('r, 'd) calls \<Rightarrow> (exn + ('r, 'd) holders) \<times> ('r, 'd) holders \<times> ('r, 'd) calls" where
  "move_ctor_traits_false R D Tr that cs =
     (case move_or_copy_construct R (resource that) of
        Inl e \<Rightarrow>
          (Inl e, if nothrow_move_constructible R then set_deallocated_traits Tr that else that, cs)
      | Inr (r, r_src) \<Rightarrow>
          (case deleter_holder_ctor D (deleter that) r
                  (nothrow_move_constructible R \<and> tr_is_allocated Tr r) cs of
             (Inl e, cs1) \<Rightarrow>
               (Inl e,
                if nothrow_move_constructible R
                then set_deallocated_traits Tr (that\<lparr>resource := r_src\<rparr>)
                else that\<lparr>resource := r_src\<rparr>, cs1)
           | (Inr (d, d_src), cs1) \<Rightarrow>
               (Inr \<lparr>resource = r, deleter = d\<rparr>,
                set_deallocated_traits Tr (that\<lparr>resource := r_src, deleter := d_src\<rparr>), cs1)))"

definition move_ctor_traits ::
  "'r resource_type \<Rightarrow> ('r, 'd) deleter_type \<Rightarrow> 'r traits \<Rightarrow> ('r, 'd) holders \<Rightarrow> ('r, 'd) calls \<Rightarrow> (exn + ('r, 'd) holders) \<times> ('r, 'd) holders \<times> ('r, 'd) calls" where
  "move_ctor_traits R D Tr that cs =
     (if nothrow_constructible D then move_ctor_traits_true R D Tr that cs
      else move_ctor_traits_false R D Tr that cs)"

definition assign_traits_true :: "'r resource_type \<Rightarrow> ('r, 'd) deleter_type \<Rightarrow> 'r traits \<Rightarrow> ('r, 'd) holders \<Rightarrow> ('r, 'd) holders \<Rightarrow> exn option \<times> ('r, 'd) holders \<times> ('r, 'd) holders" where
  "assign_traits_true R D Tr this that =
     (case move_or_copy_assign R (resource this) (resource that) of
        Inl e \<Rightarrow> (Some e, this, that)
      | Inr (r, r_src) \<Rightarrow>
          (case move_or_copy_assign D (deleter this) (deleter that) of
             Inl e \<Rightarrow> (Some e, this\<lparr>resource := r\<rparr>, that\<lparr>resource := r_src\<rparr>)
           | Inr (d, d_src) \<Rightarrow>
               (None, this\<lparr>resource := r, deleter := d\<rparr>,
                set_deallocated_traits Tr (that\<lparr>resource := r_src, deleter := d_src\<rparr>))))"

definition assign_traits_false :: "'r resource_type \<Rightarrow> ('r, 'd) deleter_type \<Rightarrow> 'r traits \<Rightarrow> ('r, 'd) holders \<Rightarrow> ('r, 'd) holders \<Rightarrow> exn option \<times> ('r, 'd) holders \<times> ('r, 'd) holders" where
  "assign_traits_false R D Tr this that =
     (case move_or_copy_assign D (deleter this) (deleter that) of
        Inl e \<Rightarrow> (Some e, this, that)
      | Inr (d, d_src) \<Rightarrow>
          (case move_or_copy_assign R (resource this) (resource that) of
             Inl e \<Rightarrow> (Some e, this\<lparr>deleter := d\<rparr>, that\<lparr>deleter := d_src\<rparr>)
           | Inr (r, r_src) \<Rightarrow>
               (None, this\<lparr>resource := r, deleter := d\<rparr>,
                set_deallocated_traits Tr (that\<lparr>resource := r_src, deleter := d_src\<rparr>))))"

definition assign_traits :: "'r resource_type \<Rightarrow> ('r, 'd) deleter_type \<Rightarrow> 'r traits \<Rightarrow> ('r, 'd) holders \<Rightarrow> ('r, 'd) holders \<Rightarrow> exn option \<times> ('r, 'd) holders \<times> ('r, 'd) holders" where
  "assign_traits R D Tr this that =
     (if nothrow_move_assignable D then assign_traits_true R D Tr this that
      else assign_traits_false R D Tr this that)"

definition swap_impl_traits_true_true ::
  "'r resource_type \<Rightarrow> ('r, 'd) deleter_type \<Rightarrow> ('r, 'd) holders \<Rightarrow> ('r, 'd) holders \<Rightarrow> exn option \<times> ('r, 'd) holders \<times> ('r, 'd) holders" where
  "swap_impl_traits_true_true R D this that =
     (case invoke_swap R (resource this) (resource that) of
        Inl (e, ra, rb) \<Rightarrow> (Some e, this\<lparr>resource := ra\<rparr>, that\<lparr>resource := rb\<rparr>)
      | Inr (ra, rb) \<Rightarrow>
          (case invoke_swap D (deleter this) (deleter that) of
             Inl (e, da, db) \<Rightarrow>
               (Some e, this\<lparr>resource := ra, deleter := da\<rparr>,
                that\<lparr>resource := rb, deleter := db\<rparr>)
           | Inr (da, db) \<Rightarrow>
               (None, this\<lparr>resource := ra, deleter := da\<rparr>, that\<lparr>resource := rb, deleter := db\<rparr>)))"

definition swap_impl_traits_true_false ::
  "'r resource_type \<Rightarrow> ('r, 'd) deleter_type \<Rightarrow> ('r, 'd) holders \<Rightarrow> ('r, 'd) holders \<Rightarrow> exn option \<times> ('r, 'd) holders \<times> ('r, 'd) holders" where
  "swap_impl_traits_true_false R D this that =
     (case invoke_swap R (resource this) (resource that) of
        Inl (e, ra, rb) \<Rightarrow> (Some e, this\<lparr>resource := ra\<rparr>, that\<lparr>resource := rb\<rparr>)
      | Inr (ra, rb) \<Rightarrow>
          (case invoke_swap D (deleter this) (deleter that) of
             Inl (e, da, db) \<Rightarrow>
               (case invoke_swap R ra rb of
                  Inl (e', ra', rb') \<Rightarrow>
                    (Some e', this\<lparr>resource := ra', deleter := da\<rparr>,
                     that\<lparr>resource := rb', deleter := db\<rparr>)
                | Inr (ra', rb') \<Rightarrow>
                    (Some e, this\<lparr>resource := ra', deleter := da\<rparr>,
                     that\<lparr>resource := rb', deleter := db\<rparr>))
           | Inr (da, db) \<Rightarrow>
               (None, this\<lparr>resource := ra, deleter := da\<rparr>, that\<lparr>resource := rb, deleter := db\<rparr>)))"

definition swap_impl_traits_false_false ::
  "'r resource_type \<Rightarrow> ('r, 'd) deleter_type \<Rightarrow> ('r, 'd) holders \<Rightarrow> ('r, 'd) holders \<Rightarrow> exn option \<times> ('r, 'd) holders \<times> ('r, 'd) holders" where
  "swap_impl_traits_false_false R D this that =
     (case invoke_swap D (deleter this) (deleter that) of
        Inl (e, da, db) \<Rightarrow> (Some e, this\<lparr>deleter := da\<rparr>, that\<lparr>deleter := db\<rparr>)
      | Inr (da, db) \<Rightarrow>
          (case invoke_swap R (resource this) (resource that) of
             Inl (e, ra, rb) \<Rightarrow>
               (case invoke_swap D da db of
                  Inl (e', da', db') \<Rightarrow>
                    (Some e', this\<lparr>resource := ra, deleter := da'\<rparr>,
                     that\<lparr>resource := rb, deleter := db'\<rparr>)
                | Inr (da', db') \<Rightarrow>
                    (Some e, this\<lparr>resource := ra, deleter := da'\<rparr>,
                     that\<lparr>resource := rb, deleter := db'\<rparr>))
           | Inr (ra, rb) \<Rightarrow>
               (None, this\<lparr>resource := ra, deleter := da\<rparr>, that\<lparr>resource := rb, deleter := db\<rparr>)))"

definition swap_traits ::
  "'r resource_type \<Rightarrow> ('r, 'd) deleter_type \<Rightarrow> ('r, 'd) holders \<Rightarrow> ('r, 'd) holders \<Rightarrow> exn option \<times> ('r, 'd) holders \<times> ('r, 'd) holders" where
  "swap_traits R D this that =
     (if nothrow_swappable R then
        if nothrow_swappable R \<and> nothrow_swappable D then swap_impl_traits_true_true R D this that
        else swap_impl_traits_true_false R D this that
      else swap_impl_traits_false_false R D this that)"

subsection \<open>unique\_resource over the specialization\<close>

definition release_traits :: "'r traits \<Rightarrow> ('r, 'd) holders \<Rightarrow> ('r, 'd) calls \<Rightarrow> ('r, 'd) holders \<times> ('r, 'd) calls" where
  "release_traits Tr g cs = (set_deallocated_traits Tr g, cs)"

definition reset_traits ::
  "('r, 'd) deleter_type \<Rightarrow> 'r traits \<Rightarrow> ('r, 'd) holders \<Rightarrow> ('r, 'd) calls \<Rightarrow> exn option \<times> ('r, 'd) holders \<times> ('r, 'd) calls" where
  "reset_traits D Tr g cs =
     (if is_allocated_traits Tr g then
        (case invoke_deleter D (deleter g) (resource g) cs of
           (Some e, cs') \<Rightarrow> (Some e, g, cs')
         | (None, cs') \<Rightarrow> (None, set_deallocated_traits Tr g, cs'))
      else (None, g, cs))"

definition destructor_traits ::
  "('r, 'd) deleter_type \<Rightarrow> 'r traits \<Rightarrow> ('r, 'd) holders \<Rightarrow> ('r, 'd) calls \<Rightarrow> exn option \<times> ('r, 'd) holders \<times> ('r, 'd) calls" where
  "destructor_traits D Tr g cs = reset_traits D Tr g cs"

definition reset_impl_body_traits ::
  "'r resource_type \<Rightarrow> ('r, 'd) deleter_type \<Rightarrow> 'r traits \<Rightarrow> ('r, 'd) holders \<Rightarrow> 'r \<Rightarrow> ('r, 'd) calls \<Rightarrow> exn option \<times> ('r, 'd) holders \<times> ('r, 'd) calls" where
  "reset_impl_body_traits R D Tr g res cs =
     (case reset_traits D Tr g cs of
        (Some e, g1, cs1) \<Rightarrow> (Some e, g1, cs1)
      | (None, g1, cs1) \<Rightarrow>
          (case assign_resource_traits R g1 res of
             Inl e \<Rightarrow> (Some e, g1, cs1)
           | Inr g2 \<Rightarrow> (None, g2, cs1)))"

definition reset_impl_traits ::
  "'r resource_type \<Rightarrow> ('r, 'd) deleter_type \<Rightarrow> 'r traits \<Rightarrow> ('r, 'd) holders \<Rightarrow> 'r \<Rightarrow> ('r, 'd) calls \<Rightarrow> exn option \<times> ('r, 'd) holders \<times> ('r, 'd) calls" where
  "reset_impl_traits R D Tr g res cs =
     (if call_noexcept D \<and> nothrow_assignable R then reset_impl_body_traits R D Tr g res cs
      else
        (case reset_impl_body_traits R D Tr g res cs of
           (None, g', cs') \<Rightarrow> (None, g', cs')
         | (Some e, g', cs') \<Rightarrow>
             (case invoke_in_handler D (deleter g') res e cs' of (e', cs'') \<Rightarrow> (Some e', g', cs''))))"

text \<open>
  The move assignment operator, with the same \<^verbatim>\<open>noexcept\<close> specification as for
  the primary template.
\<close>

definition move_assign_body_traits ::
  "'r resource_type \<Rightarrow> ('r, 'd) deleter_type \<Rightarrow> 'r traits \<Rightarrow> ('r, 'd) holders \<Rightarrow> ('r, 'd) holders \<Rightarrow> ('r, 'd) calls \<Rightarrow> exn option \<times> ('r, 'd) holders \<times> ('r, 'd) holders \<times> ('r, 'd) calls" where
  "move_assign_body_traits R D Tr this that cs =
     (case reset_traits D Tr this cs of
        (Some e, this1, cs1) \<Rightarrow> (Some e, this1, that, cs1)
      | (None, this1, cs1) \<Rightarrow>
          (case assign_traits R D Tr this1 that of (r, this2, that2) \<Rightarrow> (r, this2, that2, cs1)))"

definition move_assign_traits ::
  "'r resource_type \<Rightarrow> ('r, 'd) deleter_type \<Rightarrow> 'r traits \<Rightarrow> ('r, 'd) holders \<Rightarrow> ('r, 'd) holders \<Rightarrow> ('r, 'd) calls \<Rightarrow> completion \<times> ('r, 'd) holders \<times> ('r, 'd) holders \<times> ('r, 'd) calls" where
  "move_assign_traits R D Tr this that cs =
     (case move_assign_body_traits R D Tr this that cs of
        (x, this', that', cs') \<Rightarrow> (leave (nothrow_move_assignable_data R D) x, this', that', cs'))"

subsection \<open>Example template arguments\<close>

text \<open>
  \<open>fd_resource\<close> behaves like \<^verbatim>\<open>int\<close>: nothing throws. \<open>fragile_resource\<close> is a
  class with a throwing copy constructor and copy assignment (they throw on the value
  13) and no nothrow move; its swap throws when an operand is 13.
\<close>

definition fd_resource :: "int resource_type" where
  "fd_resource =
     \<lparr>nothrow_move_constructible = True, nothrow_copy_constructible = True,
      copy_ctor_throws = (\<lambda>x. False), moved_from = (\<lambda>x. x),
      nothrow_move_assignable = True, nothrow_copy_assignable = True,
      copy_assign_throws = (\<lambda>old x. False),
      nothrow_swappable = True, swap_throws = (\<lambda>a b. False),
      swap_failure_leaves = (\<lambda>a b. (a, b)),
      value_initialized = 0, default_ctor_throws = False\<rparr>"

definition fragile_resource :: "int resource_type" where
  "fragile_resource =
     \<lparr>nothrow_move_constructible = False, nothrow_copy_constructible = False,
      copy_ctor_throws = (\<lambda>x. x = 13), moved_from = (\<lambda>x. x),
      nothrow_move_assignable = False, nothrow_copy_assignable = False,
      copy_assign_throws = (\<lambda>old x. x = 13),
      nothrow_swappable = False, swap_throws = (\<lambda>a b. a = 13 \<or> b = 13),
      swap_failure_leaves = (\<lambda>a b. (a, b)),
      value_initialized = 0, default_ctor_throws = False\<rparr>"

text \<open>
  \<open>handle_resource\<close> is a move-only handle: its move constructor and move assignment
  are \<^verbatim>\<open>noexcept\<close> and leave 0 in the source.
\<close>

definition handle_resource :: "int resource_type" where
  "handle_resource =
     \<lparr>nothrow_move_constructible = True, nothrow_copy_constructible = False,
      copy_ctor_throws = (\<lambda>x. False), moved_from = (\<lambda>x. 0),
      nothrow_move_assignable = True, nothrow_copy_assignable = False,
      copy_assign_throws = (\<lambda>old x. False),
      nothrow_swappable = True, swap_throws = (\<lambda>a b. False),
      swap_failure_leaves = (\<lambda>a b. (a, b)),
      value_initialized = 0, default_ctor_throws = False\<rparr>"

text \<open>
  \<open>fn_deleter\<close> behaves like a pointer to a \<^verbatim>\<open>noexcept\<close> function.
  \<open>fragile_deleter\<close> is a function object whose copy constructor, copy assignment
  and swap throw on the deleter \<open>''bad''\<close>, and whose call throws on the resource 99.
  Its swap gives the basic exception guarantee only: when it throws, it has assigned
  the second operand to the first already. \<open>throwing_functor\<close> is a
  function object that is nothrow constructible, assignable and swappable, and whose
  call throws on the resource 99.
\<close>

definition fn_deleter :: "(int, string) deleter_type" where
  "fn_deleter =
     \<lparr>nothrow_move_constructible = True, nothrow_copy_constructible = True,
      copy_ctor_throws = (\<lambda>d. False), moved_from = (\<lambda>d. d),
      nothrow_move_assignable = True, nothrow_copy_assignable = True,
      copy_assign_throws = (\<lambda>old d. False),
      nothrow_swappable = True, swap_throws = (\<lambda>a b. False),
      swap_failure_leaves = (\<lambda>a b. (a, b)),
      call_noexcept = True, call_throws = (\<lambda>d r. False)\<rparr>"

definition fragile_deleter :: "(int, string) deleter_type" where
  "fragile_deleter =
     \<lparr>nothrow_move_constructible = False, nothrow_copy_constructible = False,
      copy_ctor_throws = (\<lambda>d. d = ''bad''), moved_from = (\<lambda>d. d),
      nothrow_move_assignable = False, nothrow_copy_assignable = False,
      copy_assign_throws = (\<lambda>old d. d = ''bad''),
      nothrow_swappable = False, swap_throws = (\<lambda>a b. a = ''bad'' \<or> b = ''bad''),
      swap_failure_leaves = (\<lambda>a b. (b, b)),
      call_noexcept = False, call_throws = (\<lambda>d r. r = 99)\<rparr>"

definition throwing_functor :: "(int, string) deleter_type" where
  "throwing_functor =
     \<lparr>nothrow_move_constructible = True, nothrow_copy_constructible = True,
      copy_ctor_throws = (\<lambda>d. False), moved_from = (\<lambda>d. d),
      nothrow_move_assignable = True, nothrow_copy_assignable = True,
      copy_assign_throws = (\<lambda>old d. False),
      nothrow_swappable = True, swap_throws = (\<lambda>a b. False),
      swap_failure_leaves = (\<lambda>a b. (a, b)),
      call_noexcept = False, call_throws = (\<lambda>d r. r = 99)\<rparr>"

text \<open>
  Traits of a file descriptor: every negative value is unallocated, and \<open>- 1\<close> is the
  default among them.
\<close>

definition fd_traits :: "int traits" where
  "fd_traits =
     \<lparr>has_make_default = True, resource_constructible_from_default = True,
      tr_make_default = - 1, make_default_noexcept = True,
      resource_nothrow_assignable_from_default = True,
      has_is_allocated = True, tr_is_allocated = (\<lambda>r. 0 \<le> r)\<rparr>"

section \<open>Properties\<close>

subsection \<open>Unfolding sets and basic facts\<close>

lemmas value_ops_defs =
  nothrow_constructible_def nothrow_assignable_def move_or_copy_construct_def
  move_or_copy_assign_def invoke_swap_def invoke_deleter_def invoke_in_handler_def

lemmas holder_defs =
  resource_holder_default_def resource_holder_ctor_def deleter_holder_ctor_def

lemmas data_defs =
  is_allocated_def set_deallocated_def assign_resource_def data_ctor_default_def data_ctor_def
  move_ctor_true_def move_ctor_false_def move_ctor_def assign_true_def assign_false_def assign_def
  swap_requires_def swap_impl_true_true_def swap_impl_true_false_def swap_impl_false_false_def swap_def

lemmas guard_defs =
  release_def reset_def destructor_def reset_impl_body_def reset_impl_def
  nothrow_move_assignable_data_def leave_def move_assign_body_def move_assign_def
  make_unique_resource_checked_def

lemmas data_traits_defs =
  conforming_def has_custom_default_def has_deallocated_state_def use_deallocated_state_def
  is_allocated_traits_def set_deallocated_traits_def assign_resource_traits_def data_ctor_traits_def
  move_ctor_traits_true_def move_ctor_traits_false_def move_ctor_traits_def
  assign_traits_true_def assign_traits_false_def assign_traits_def
  swap_impl_traits_true_true_def swap_impl_traits_true_false_def swap_impl_traits_false_false_def
  swap_traits_def

lemmas guard_traits_defs =
  release_traits_def reset_traits_def destructor_traits_def reset_impl_body_traits_def
  reset_impl_traits_def move_assign_body_traits_def move_assign_traits_def

lemmas example_defs =
  fd_resource_def fragile_resource_def handle_resource_def fn_deleter_def fragile_deleter_def
  throwing_functor_def fd_traits_def

text \<open>Operations of the resource and deleter types: when they throw, what they return.\<close>

lemma construct_Inl_not_nothrow:
  "move_or_copy_construct V x = Inl e \<Longrightarrow> \<not> nothrow_constructible V \<and> e = Construction_failed"
  by (auto simp: move_or_copy_construct_def nothrow_constructible_def split: if_splits)

lemma construct_Inr_value: "move_or_copy_construct V x = Inr (y, y') \<Longrightarrow> y = x"
  by (auto simp: move_or_copy_construct_def split: if_splits)

lemma construct_copy_source:
  "\<not> nothrow_move_constructible V \<Longrightarrow> move_or_copy_construct V x = Inr (y, y') \<Longrightarrow> y' = x"
  by (auto simp: move_or_copy_construct_def split: if_splits)



lemma swap_Inl_not_nothrow:
  "invoke_swap V a b = Inl x \<Longrightarrow>
     \<not> nothrow_swappable V \<and> x = (Swap_failed, swap_failure_leaves V a b)"
  by (auto simp: invoke_swap_def split: if_splits)

lemma swap_nothrow: "nothrow_swappable V \<Longrightarrow> invoke_swap V a b = Inr (b, a)"
  by (simp add: invoke_swap_def)

lemma invoke_in_handler_eq:
  "invoke_in_handler D d r e cs =
     (if \<not> call_noexcept D \<and> call_throws D d r then Deleter_failed else e, cs @ [(d, r)])"
  by (simp add: invoke_in_handler_def invoke_deleter_def)

text \<open>A constructor that returns a guard stored its arguments and invoked no deleter.\<close>

lemma data_ctor_Inr:
  "data_ctor R D res del cs = (Inr g, cs1) \<Longrightarrow>
     g = \<lparr>resource = res, deleter = del, m_allocated = True\<rparr> \<and> cs1 = cs"
  by (auto simp: data_ctor_def resource_holder_ctor_def deleter_holder_ctor_def
        move_or_copy_construct_def split: sum.splits prod.splits if_splits)

lemma data_ctor_traits_Inr:
  "data_ctor_traits R D Tr res del cs = (Inr h, cs1) \<Longrightarrow>
     h = \<lparr>resource = res, deleter = del\<rparr> \<and> cs1 = cs"
  by (auto simp: data_ctor_traits_def resource_holder_ctor_def deleter_holder_ctor_def
        move_or_copy_construct_def Let_def split: sum.splits prod.splits if_splits)

text \<open>One that throws has invoked the deleter once, on the resource.\<close>

lemma data_ctor_Inl: "data_ctor R D res del cs = (Inl e, cs1) \<Longrightarrow> cs1 = cs @ [(del, res)]"
  by (auto simp: data_ctor_def resource_holder_ctor_def deleter_holder_ctor_def
        invoke_in_handler_eq move_or_copy_construct_def nothrow_constructible_def
        split: sum.splits prod.splits if_splits)

lemma data_ctor_no_throw:
  "\<not> isl (move_or_copy_construct R res) \<Longrightarrow> \<not> isl (move_or_copy_construct D del) \<Longrightarrow>
     data_ctor R D res del cs = (Inr \<lparr>resource = res, deleter = del, m_allocated = True\<rparr>, cs)"
  by (auto simp: data_ctor_def resource_holder_ctor_def deleter_holder_ctor_def
        move_or_copy_construct_def split: sum.splits prod.splits if_splits)

lemma data_ctor_default_Inr:
  "data_ctor_default R D custom del = Inr g \<Longrightarrow> \<not> is_allocated g \<and> deleter g = del"
  by (auto simp: data_ctor_default_def resource_holder_default_def move_or_copy_construct_def
        is_allocated_def split: sum.splits prod.splits if_splits option.splits)

lemma data_ctor_default_no_throw:
  "\<not> default_ctor_throws R \<Longrightarrow> \<not> isl (move_or_copy_construct D del) \<Longrightarrow>
     data_ctor_default R D None del =
       Inr \<lparr>resource = value_initialized R, deleter = del, m_allocated = False\<rparr>"
  by (auto simp: data_ctor_default_def resource_holder_default_def move_or_copy_construct_def
        split: sum.splits prod.splits if_splits)

text \<open>A move constructor that returns.\<close>

lemma move_ctor_Inr:
  "move_ctor R D G cs = (Inr H, G', cs') \<Longrightarrow>
     H = \<lparr>resource = resource G, deleter = deleter G, m_allocated = m_allocated G\<rparr>
     \<and> \<not> m_allocated G' \<and> cs' = cs"
  by (auto simp: move_ctor_def move_ctor_true_def move_ctor_false_def deleter_holder_ctor_def
        move_or_copy_construct_def split: sum.splits prod.splits if_splits)

lemma move_ctor_traits_Inr:
  "move_ctor_traits R D Tr G cs = (Inr H, G', cs') \<Longrightarrow>
     H = \<lparr>resource = resource G, deleter = deleter G\<rparr>
     \<and> resource G' = tr_make_default Tr \<and> cs' = cs"
  by (auto simp: move_ctor_traits_def move_ctor_traits_true_def move_ctor_traits_false_def
        deleter_holder_ctor_def set_deallocated_traits_def
        move_or_copy_construct_def split: sum.splits prod.splits if_splits)

text \<open>The two branches of \<^verbatim>\<open>reset()\<close>, and what it and the destructor add to the log.\<close>

lemma reset_allocated:
  "is_allocated g \<Longrightarrow>
     reset D g cs =
       (if \<not> call_noexcept D \<and> call_throws D (deleter g) (resource g)
        then (Some Deleter_failed, g, cs @ [(deleter g, resource g)])
        else (None, set_deallocated g, cs @ [(deleter g, resource g)]))"
  by (simp add: reset_def invoke_deleter_def)

lemma reset_unallocated: "\<not> is_allocated g \<Longrightarrow> reset D g cs = (None, g, cs)"
  by (simp add: reset_def)

lemma reset_traits_allocated:
  "is_allocated_traits Tr g \<Longrightarrow>
     reset_traits D Tr g cs =
       (if \<not> call_noexcept D \<and> call_throws D (deleter g) (resource g)
        then (Some Deleter_failed, g, cs @ [(deleter g, resource g)])
        else (None, set_deallocated_traits Tr g, cs @ [(deleter g, resource g)]))"
  by (simp add: reset_traits_def invoke_deleter_def)

lemma reset_traits_unallocated:
  "\<not> is_allocated_traits Tr g \<Longrightarrow> reset_traits D Tr g cs = (None, g, cs)"
  by (simp add: reset_traits_def)





lemma destructor_log:
  "snd (snd (destructor D g cs)) = cs @ (if is_allocated g then [(deleter g, resource g)] else [])"
  by (simp add: destructor_def reset_def invoke_deleter_def split: prod.splits)

lemma destructor_traits_log:
  "snd (snd (destructor_traits D Tr g cs))
     = cs @ (if is_allocated_traits Tr g then [(deleter g, resource g)] else [])"
  by (simp add: destructor_traits_def reset_traits_def invoke_deleter_def split: prod.splits)

lemma set_deallocated_unallocated: "\<not> is_allocated (set_deallocated g)"
  by (simp add: is_allocated_def set_deallocated_def)

lemma set_deallocated_traits_unallocated:
  "conforming Tr \<Longrightarrow> \<not> is_allocated_traits Tr (set_deallocated_traits Tr g)"
  by (simp add: is_allocated_traits_def set_deallocated_traits_def conforming_def)

text \<open>
  A swap that exits with an exception: the part that is nothrow swappable is as it was,
  and the other part is as its own swap left it.
\<close>

lemma swap_failure_cases:
  "swap_requires R D \<Longrightarrow> swap R D a b = (Some e, a', b') \<Longrightarrow>
     e = Swap_failed \<and>
     (if nothrow_swappable R
      then a' = a\<lparr>deleter := fst (swap_failure_leaves D (deleter a) (deleter b))\<rparr>
         \<and> b' = b\<lparr>deleter := snd (swap_failure_leaves D (deleter a) (deleter b))\<rparr>
      else a' = a\<lparr>resource := fst (swap_failure_leaves R (resource a) (resource b))\<rparr>
         \<and> b' = b\<lparr>resource := snd (swap_failure_leaves R (resource a) (resource b))\<rparr>)"
  by (auto simp: swap_requires_def swap_def swap_impl_true_true_def swap_impl_true_false_def
        swap_impl_false_false_def invoke_swap_def split: sum.splits prod.splits if_splits)

lemma swap_traits_failure_cases:
  "swap_requires R D \<Longrightarrow> swap_traits R D a b = (Some e, a', b') \<Longrightarrow>
     e = Swap_failed \<and>
     (if nothrow_swappable R
      then a' = a\<lparr>deleter := fst (swap_failure_leaves D (deleter a) (deleter b))\<rparr>
         \<and> b' = b\<lparr>deleter := snd (swap_failure_leaves D (deleter a) (deleter b))\<rparr>
      else a' = a\<lparr>resource := fst (swap_failure_leaves R (resource a) (resource b))\<rparr>
         \<and> b' = b\<lparr>resource := snd (swap_failure_leaves R (resource a) (resource b))\<rparr>)"
  by (auto simp: swap_requires_def swap_traits_def swap_impl_traits_true_true_def
        swap_impl_traits_true_false_def swap_impl_traits_false_false_def invoke_swap_def
        split: sum.splits prod.splits if_splits)

subsection \<open>Destruction of an allocated guard\<close>

text \<open>
  Claim C1. A guard constructed from a resource \<open>res\<close> that is classified as allocated
  (every resource for the primary template; one on which the traits' predicate holds
  for the specialization, the traits being conforming) and a deleter \<open>del\<close> is
  allocated and holds \<open>res\<close> and \<open>del\<close>; its construction invokes no deleter.
  Destroying it appends exactly one invocation to the log, that of \<open>del\<close> on
  \<open>res\<close>, whether or not the invocation throws. When the invocation returns, the
  implicit \<^verbatim>\<open>reset()\<close> leaves the guard unallocated, and running the destructor's
  body on that state again invokes nothing. (The state after an invocation that throws
  is the subject of claim C10.)
\<close>

theorem destructor_invokes_deleter_once:
  "(data_ctor R D res del cs = (Inr g, cs1) \<longrightarrow>
      cs1 = cs \<and> is_allocated g \<and> resource g = res \<and> deleter g = del \<and>
      (case destructor D g cs1 of (x, g', cs2) \<Rightarrow>
         cs2 = cs @ [(del, res)] \<and>
         (x = None \<longrightarrow> \<not> is_allocated g' \<and> destructor D g' cs2 = (None, g', cs2))))
   \<and> (conforming Tr \<and> tr_is_allocated Tr res
        \<and> data_ctor_traits R D Tr res del cs = (Inr h, cs1) \<longrightarrow>
      cs1 = cs \<and> is_allocated_traits Tr h \<and> resource h = res \<and> deleter h = del \<and>
      (case destructor_traits D Tr h cs1 of (x, h', cs2) \<Rightarrow>
         cs2 = cs @ [(del, res)] \<and>
         (x = None \<longrightarrow>
            \<not> is_allocated_traits Tr h' \<and> destructor_traits D Tr h' cs2 = (None, h', cs2))))"
proof (intro conjI impI)
  assume a: "data_ctor R D res del cs = (Inr g, cs1)"
  have g: "g = \<lparr>resource = res, deleter = del, m_allocated = True\<rparr>" and c: "cs1 = cs"
    using data_ctor_Inr [OF a] by simp_all
  show "cs1 = cs" by (rule c)
  show al: "is_allocated g" by (simp add: g is_allocated_def)
  show "resource g = res" "deleter g = del" by (simp_all add: g)
  show "case destructor D g cs1 of (x, g', cs2) \<Rightarrow>
         cs2 = cs @ [(del, res)] \<and>
         (x = None \<longrightarrow> \<not> is_allocated g' \<and> destructor D g' cs2 = (None, g', cs2))"
    using al
    by (simp add: destructor_def reset_allocated reset_unallocated set_deallocated_unallocated c g)
next
  assume a: "conforming Tr \<and> tr_is_allocated Tr res
      \<and> data_ctor_traits R D Tr res del cs = (Inr h, cs1)"
  then have d: "data_ctor_traits R D Tr res del cs = (Inr h, cs1)" by simp
  have h: "h = \<lparr>resource = res, deleter = del\<rparr>" and c: "cs1 = cs"
    using data_ctor_traits_Inr [OF d] by simp_all
  from a have conf: "conforming Tr" and ar: "tr_is_allocated Tr res" by simp_all
  show "cs1 = cs" by (rule c)
  show al: "is_allocated_traits Tr h" by (simp add: h is_allocated_traits_def ar)
  show "resource h = res" "deleter h = del" by (simp_all add: h)
  show "case destructor_traits D Tr h cs1 of (x, h', cs2) \<Rightarrow>
         cs2 = cs @ [(del, res)] \<and>
         (x = None \<longrightarrow>
            \<not> is_allocated_traits Tr h' \<and> destructor_traits D Tr h' cs2 = (None, h', cs2))"
    using al conf
    by (simp add: destructor_traits_def reset_traits_allocated reset_traits_unallocated
          set_deallocated_traits_unallocated c h)
qed

theorem destructor_invokes_deleter_once_witness:
  "data_ctor fd_resource fragile_deleter 7 ''close'' []
     = (Inr \<lparr>resource = 7, deleter = ''close'', m_allocated = True\<rparr>, [])
   \<and> destructor fragile_deleter \<lparr>resource = 7, deleter = ''close'', m_allocated = True\<rparr> []
     = (None, \<lparr>resource = 7, deleter = ''close'', m_allocated = False\<rparr>, [(''close'', 7)])
   \<and> conforming fd_traits \<and> tr_is_allocated fd_traits 7
   \<and> data_ctor_traits fd_resource fragile_deleter fd_traits 7 ''close'' []
     = (Inr \<lparr>resource = 7, deleter = ''close''\<rparr>, [])
   \<and> destructor_traits fragile_deleter fd_traits \<lparr>resource = 7, deleter = ''close''\<rparr> []
     = (None, \<lparr>resource = - 1, deleter = ''close''\<rparr>, [(''close'', 7)])"
  using destructor_invokes_deleter_once
    [where R = fd_resource and D = fragile_deleter and res = 7 and del = "''close''" and cs = "[]"
       and g = "\<lparr>resource = 7, deleter = ''close'', m_allocated = True\<rparr>" and ?cs1.0 = "[]"
       and Tr = fd_traits and h = "\<lparr>resource = 7, deleter = ''close''\<rparr>"]
  by (simp add: value_ops_defs holder_defs data_defs guard_defs data_traits_defs guard_traits_defs
        example_defs)

subsection \<open>Move construction\<close>

text \<open>
  Claim C2, as written, fails: it says that exactly one of the two guards is allocated
  after a move construction. A guard move-constructed from an unallocated guard is
  itself unallocated, so neither is. The example moves from an unallocated guard that
  holds the handle 7: the new guard holds 7, the source holds the moved-from handle 0,
  and both are unallocated.
\<close>

theorem move_construct_from_unallocated_counterexample:
  "move_ctor handle_resource fn_deleter
       \<lparr>resource = 7, deleter = ''close'', m_allocated = False\<rparr> []
     = (Inr \<lparr>resource = 7, deleter = ''close'', m_allocated = False\<rparr>,
        \<lparr>resource = 0, deleter = ''close'', m_allocated = False\<rparr>, [])
   \<and> \<not> is_allocated \<lparr>resource = 7 :: int, deleter = ''close'', m_allocated = False\<rparr>
   \<and> \<not> is_allocated \<lparr>resource = 0 :: int, deleter = ''close'', m_allocated = False\<rparr>"
  by (simp add: value_ops_defs holder_defs data_defs example_defs)

text \<open>
  Claim C2, amended. When \<open>H\<close> is move-constructed from \<open>G\<close> (the constructor returns
  \<open>H\<close> and leaves the source as \<open>G'\<close>): \<open>H\<close> is allocated exactly when \<open>G\<close> was,
  \<open>G'\<close> is unallocated, and the move invokes no deleter. So at most one of the two is
  allocated, and exactly one is precisely when \<open>G\<close> was allocated. Destroying both,
  in either order, invokes the deleter at most once in total: once on the resource of
  \<open>G\<close> when \<open>G\<close> was allocated, and not at all otherwise. For the specialization
  this is under the documented requirement on the traits.
\<close>

theorem move_construct_transfers_ownership:
  "(move_ctor R D G cs = (Inr H, G', cs') \<longrightarrow>
      is_allocated H = is_allocated G \<and> \<not> is_allocated G' \<and> cs' = cs
      \<and> \<not> (is_allocated G' \<and> is_allocated H)
      \<and> ((is_allocated H \<noteq> is_allocated G') = is_allocated G)
      \<and> snd (snd (destructor D G' (snd (snd (destructor D H cs')))))
          = cs @ (if is_allocated G then [(deleter G, resource G)] else [])
      \<and> snd (snd (destructor D H (snd (snd (destructor D G' cs')))))
          = cs @ (if is_allocated G then [(deleter G, resource G)] else [])
      \<and> length (snd (snd (destructor D G' (snd (snd (destructor D H cs')))))) \<le> length cs + 1)
   \<and> (conforming Tr \<and> move_ctor_traits R D Tr K cs = (Inr L, K', cs') \<longrightarrow>
      is_allocated_traits Tr L = is_allocated_traits Tr K \<and> \<not> is_allocated_traits Tr K' \<and> cs' = cs
      \<and> \<not> (is_allocated_traits Tr K' \<and> is_allocated_traits Tr L)
      \<and> ((is_allocated_traits Tr L \<noteq> is_allocated_traits Tr K') = is_allocated_traits Tr K)
      \<and> snd (snd (destructor_traits D Tr K' (snd (snd (destructor_traits D Tr L cs')))))
          = cs @ (if is_allocated_traits Tr K then [(deleter K, resource K)] else [])
      \<and> snd (snd (destructor_traits D Tr L (snd (snd (destructor_traits D Tr K' cs')))))
          = cs @ (if is_allocated_traits Tr K then [(deleter K, resource K)] else [])
      \<and> length (snd (snd (destructor_traits D Tr K' (snd (snd (destructor_traits D Tr L cs'))))))
          \<le> length cs + 1)"
proof (intro conjI impI)
  assume a: "move_ctor R D G cs = (Inr H, G', cs')"
  note f = move_ctor_Inr [OF a]
  from f have H: "H = \<lparr>resource = resource G, deleter = deleter G, m_allocated = m_allocated G\<rparr>"
    and G': "\<not> is_allocated G'" and c: "cs' = cs"
    by (simp_all add: is_allocated_def)
  show HG: "is_allocated H = is_allocated G" by (simp add: H is_allocated_def)
  show "\<not> is_allocated G'" by (rule G')
  show "cs' = cs" by (rule c)
  show "\<not> (is_allocated G' \<and> is_allocated H)" using G' by simp
  show "(is_allocated H \<noteq> is_allocated G') = is_allocated G" using G' HG by simp
  show "snd (snd (destructor D G' (snd (snd (destructor D H cs')))))
          = cs @ (if is_allocated G then [(deleter G, resource G)] else [])"
    using G' by (simp add: destructor_log HG c) (simp add: H)
  show "snd (snd (destructor D H (snd (snd (destructor D G' cs')))))
          = cs @ (if is_allocated G then [(deleter G, resource G)] else [])"
    using G' by (simp add: destructor_log HG c) (simp add: H)
  show "length (snd (snd (destructor D G' (snd (snd (destructor D H cs')))))) \<le> length cs + 1"
    using G' by (simp add: destructor_log c)
next
  assume a: "conforming Tr \<and> move_ctor_traits R D Tr K cs = (Inr L, K', cs')"
  then have b: "move_ctor_traits R D Tr K cs = (Inr L, K', cs')" and conf: "conforming Tr"
    by simp_all
  note f = move_ctor_traits_Inr [OF b]
  from f conf have L: "L = \<lparr>resource = resource K, deleter = deleter K\<rparr>"
    and K': "\<not> is_allocated_traits Tr K'" and c: "cs' = cs"
    by (simp_all add: is_allocated_traits_def conforming_def)
  show LK: "is_allocated_traits Tr L = is_allocated_traits Tr K"
    by (simp add: L is_allocated_traits_def)
  show "\<not> is_allocated_traits Tr K'" by (rule K')
  show "cs' = cs" by (rule c)
  show "\<not> (is_allocated_traits Tr K' \<and> is_allocated_traits Tr L)" using K' by simp
  show "(is_allocated_traits Tr L \<noteq> is_allocated_traits Tr K') = is_allocated_traits Tr K"
    using K' LK by simp
  show "snd (snd (destructor_traits D Tr K' (snd (snd (destructor_traits D Tr L cs')))))
          = cs @ (if is_allocated_traits Tr K then [(deleter K, resource K)] else [])"
    using K' by (simp add: destructor_traits_log LK c) (simp add: L)
  show "snd (snd (destructor_traits D Tr L (snd (snd (destructor_traits D Tr K' cs')))))
          = cs @ (if is_allocated_traits Tr K then [(deleter K, resource K)] else [])"
    using K' by (simp add: destructor_traits_log LK c) (simp add: L)
  show "length (snd (snd (destructor_traits D Tr K' (snd (snd (destructor_traits D Tr L cs'))))))
          \<le> length cs + 1"
    using K' by (simp add: destructor_traits_log c)
qed

theorem move_construct_transfers_ownership_witness:
  "move_ctor handle_resource fragile_deleter
       \<lparr>resource = 7, deleter = ''close'', m_allocated = True\<rparr> []
     = (Inr \<lparr>resource = 7, deleter = ''close'', m_allocated = True\<rparr>,
        \<lparr>resource = 0, deleter = ''close'', m_allocated = False\<rparr>, [])
   \<and> snd (snd (destructor fragile_deleter \<lparr>resource = 0, deleter = ''close'', m_allocated = False\<rparr>
        (snd (snd (destructor fragile_deleter
           \<lparr>resource = 7, deleter = ''close'', m_allocated = True\<rparr> [])))))
     = [(''close'', 7)]
   \<and> conforming fd_traits
   \<and> move_ctor_traits handle_resource fragile_deleter fd_traits
        \<lparr>resource = 7, deleter = ''close''\<rparr> []
     = (Inr \<lparr>resource = 7, deleter = ''close''\<rparr>, \<lparr>resource = - 1, deleter = ''close''\<rparr>, [])
   \<and> snd (snd (destructor_traits fragile_deleter fd_traits \<lparr>resource = - 1, deleter = ''close''\<rparr>
        (snd (snd (destructor_traits fragile_deleter fd_traits
           \<lparr>resource = 7, deleter = ''close''\<rparr> [])))))
     = [(''close'', 7)]"
  using move_construct_transfers_ownership
    [where R = handle_resource and D = fragile_deleter and cs = "[]" and cs' = "[]"
       and G = "\<lparr>resource = 7, deleter = ''close'', m_allocated = True\<rparr>"
       and H = "\<lparr>resource = 7, deleter = ''close'', m_allocated = True\<rparr>"
       and G' = "\<lparr>resource = 0, deleter = ''close'', m_allocated = False\<rparr>"
       and Tr = fd_traits
       and K = "\<lparr>resource = 7, deleter = ''close''\<rparr>"
       and L = "\<lparr>resource = 7, deleter = ''close''\<rparr>"
       and K' = "\<lparr>resource = - 1, deleter = ''close''\<rparr>"]
  by (simp add: value_ops_defs holder_defs data_defs guard_defs data_traits_defs guard_traits_defs
        example_defs)

subsection \<open>Failure while a guard is constructed\<close>

text \<open>
  Claim C3. Constructing a guard from \<open>res\<close> and \<open>del\<close>, where \<open>res\<close> is an
  allocated resource value (any value for the primary template, one on which the
  traits' predicate holds for the specialization): if the construction of the stored
  resource throws, the constructor returns no guard, and has invoked \<open>del\<close> exactly
  once, on the argument \<open>res\<close>; if the stored resource \<open>r\<close> was constructed and the
  construction of the stored deleter throws, the constructor returns no guard, and has
  invoked \<open>del\<close> exactly once, on \<open>r\<close>. The exception that reaches the caller is
  the constructor's, or the deleter's own when that invocation throws.
\<close>

theorem construction_failure_invokes_deleter:
  "(move_or_copy_construct R res = Inl e \<longrightarrow>
      data_ctor R D res del cs =
        (Inl (if \<not> call_noexcept D \<and> call_throws D del res then Deleter_failed else e),
         cs @ [(del, res)]))
   \<and> (move_or_copy_construct R res = Inr (r, r') \<and> move_or_copy_construct D del = Inl e \<longrightarrow>
      data_ctor R D res del cs =
        (Inl (if \<not> call_noexcept D \<and> call_throws D del r then Deleter_failed else e),
         cs @ [(del, r)]))
   \<and> (tr_is_allocated Tr res \<and> move_or_copy_construct R res = Inl e \<longrightarrow>
      data_ctor_traits R D Tr res del cs =
        (Inl (if \<not> call_noexcept D \<and> call_throws D del res then Deleter_failed else e),
         cs @ [(del, res)]))
   \<and> (tr_is_allocated Tr res \<and> move_or_copy_construct R res = Inr (r, r')
        \<and> move_or_copy_construct D del = Inl e \<longrightarrow>
      data_ctor_traits R D Tr res del cs =
        (Inl (if \<not> call_noexcept D \<and> call_throws D del r then Deleter_failed else e),
         cs @ [(del, r)]))"
proof (intro conjI impI)
  assume a: "move_or_copy_construct R res = Inl e"
  have n: "\<not> nothrow_constructible R" using construct_Inl_not_nothrow [OF a] by simp
  show "data_ctor R D res del cs =
        (Inl (if \<not> call_noexcept D \<and> call_throws D del res then Deleter_failed else e),
         cs @ [(del, res)])"
    by (simp add: data_ctor_def resource_holder_ctor_def a n invoke_in_handler_eq)
next
  assume a: "move_or_copy_construct R res = Inr (r, r') \<and> move_or_copy_construct D del = Inl e"
  then have b: "move_or_copy_construct D del = Inl e" by simp
  have n: "\<not> nothrow_constructible D" using construct_Inl_not_nothrow [OF b] by simp
  show "data_ctor R D res del cs =
        (Inl (if \<not> call_noexcept D \<and> call_throws D del r then Deleter_failed else e),
         cs @ [(del, r)])"
    using a
    by (simp add: data_ctor_def resource_holder_ctor_def deleter_holder_ctor_def n
          invoke_in_handler_eq)
next
  assume a: "tr_is_allocated Tr res \<and> move_or_copy_construct R res = Inl e"
  then have b: "move_or_copy_construct R res = Inl e" by simp
  have n: "\<not> nothrow_constructible R" using construct_Inl_not_nothrow [OF b] by simp
  show "data_ctor_traits R D Tr res del cs =
        (Inl (if \<not> call_noexcept D \<and> call_throws D del res then Deleter_failed else e),
         cs @ [(del, res)])"
    using a by (simp add: data_ctor_traits_def resource_holder_ctor_def n invoke_in_handler_eq)
next
  assume a: "tr_is_allocated Tr res \<and> move_or_copy_construct R res = Inr (r, r')
        \<and> move_or_copy_construct D del = Inl e"
  then have b: "move_or_copy_construct D del = Inl e" by simp
  have n: "\<not> nothrow_constructible D" using construct_Inl_not_nothrow [OF b] by simp
  show "data_ctor_traits R D Tr res del cs =
        (Inl (if \<not> call_noexcept D \<and> call_throws D del r then Deleter_failed else e),
         cs @ [(del, r)])"
    using a
    by (simp add: data_ctor_traits_def resource_holder_ctor_def deleter_holder_ctor_def n
          invoke_in_handler_eq)
qed

theorem construction_failure_invokes_deleter_witness:
  "move_or_copy_construct fragile_resource 13 = Inl Construction_failed
   \<and> data_ctor fragile_resource fragile_deleter 13 ''close'' []
       = (Inl Construction_failed, [(''close'', 13)])
   \<and> tr_is_allocated fd_traits 13
   \<and> data_ctor_traits fragile_resource fragile_deleter fd_traits 13 ''close'' []
       = (Inl Construction_failed, [(''close'', 13)])
   \<and> move_or_copy_construct fd_resource 7 = Inr (7, 7)
   \<and> move_or_copy_construct fragile_deleter ''bad'' = Inl Construction_failed
   \<and> data_ctor fd_resource fragile_deleter 7 ''bad'' [] = (Inl Construction_failed, [(''bad'', 7)])
   \<and> tr_is_allocated fd_traits 7
   \<and> data_ctor_traits fd_resource fragile_deleter fd_traits 7 ''bad'' []
       = (Inl Construction_failed, [(''bad'', 7)])"
  using construction_failure_invokes_deleter
    [where R = fragile_resource and D = fragile_deleter and res = 13 and del = "''close''"
       and cs = "[]" and e = Construction_failed and Tr = fd_traits]
    construction_failure_invokes_deleter
    [where R = fd_resource and D = fragile_deleter and res = 7 and del = "''bad''"
       and cs = "[]" and e = Construction_failed and Tr = fd_traits and r = 7 and r' = 7]
  by (simp add: value_ops_defs example_defs)

subsection \<open>Move construction when the construction of the deleter throws\<close>

text \<open>
  Claim C4. In a move construction the resource is constructed first, from the resource
  of the source. If this construction throws (the resource is being copied), the source
  and the log are as they were. If it succeeds and the construction of the deleter then
  throws (so that the deleter is not nothrow constructible and the function-try-block
  overload runs), then:
  when the resource is nothrow move-constructible, the source ends deactivated
  (unallocated; the primary template clears \<open>m_allocated\<close>, the specialization
  assigns the default resource), and the source's deleter has been invoked on the new
  resource object exactly once if the source was allocated and not at all otherwise;
  when the resource was copy-constructed, the source is exactly as it was (resource,
  deleter and allocated state) and no deleter has been invoked. In every case the
  caller receives an exception and no guard.
\<close>

theorem move_construct_deleter_failure:
  "(move_or_copy_construct R (resource that) = Inl e \<longrightarrow>
      move_ctor R D that cs = (Inl e, that, cs))
   \<and> (move_or_copy_construct R (resource that) = Inr (r, r_src)
      \<and> move_or_copy_construct D (deleter that) = Inl e \<longrightarrow>
      (nothrow_move_constructible R \<longrightarrow>
         move_ctor R D that cs =
           (Inl (if is_allocated that \<and> \<not> call_noexcept D \<and> call_throws D (deleter that) r
                 then Deleter_failed else e),
            that\<lparr>resource := r_src, m_allocated := False\<rparr>,
            cs @ (if is_allocated that then [(deleter that, r)] else []))
         \<and> \<not> is_allocated (that\<lparr>resource := r_src, m_allocated := False\<rparr>))
      \<and> (\<not> nothrow_move_constructible R \<longrightarrow> move_ctor R D that cs = (Inl e, that, cs)))
   \<and> (move_or_copy_construct R (resource src) = Inl e \<longrightarrow>
      move_ctor_traits R D Tr src cs = (Inl e, src, cs))
   \<and> (move_or_copy_construct R (resource src) = Inr (r, r_src)
      \<and> move_or_copy_construct D (deleter src) = Inl e \<longrightarrow>
      (nothrow_move_constructible R \<longrightarrow>
         move_ctor_traits R D Tr src cs =
           (Inl (if is_allocated_traits Tr src \<and> \<not> call_noexcept D
                    \<and> call_throws D (deleter src) r
                 then Deleter_failed else e),
            src\<lparr>resource := tr_make_default Tr\<rparr>,
            cs @ (if is_allocated_traits Tr src then [(deleter src, r)] else []))
         \<and> (conforming Tr \<longrightarrow>
              \<not> is_allocated_traits Tr (src\<lparr>resource := tr_make_default Tr\<rparr>)))
      \<and> (\<not> nothrow_move_constructible R \<longrightarrow>
           move_ctor_traits R D Tr src cs = (Inl e, src, cs)))"
proof (intro conjI impI)
  assume a: "move_or_copy_construct R (resource that) = Inl e"
  then have "\<not> nothrow_move_constructible R"
    by (auto simp: move_or_copy_construct_def split: if_splits)
  then show "move_ctor R D that cs = (Inl e, that, cs)"
    by (simp add: move_ctor_def move_ctor_true_def move_ctor_false_def a)
next
  assume a: "move_or_copy_construct R (resource src) = Inl e"
  then have "\<not> nothrow_move_constructible R"
    by (auto simp: move_or_copy_construct_def split: if_splits)
  then show "move_ctor_traits R D Tr src cs = (Inl e, src, cs)"
    by (simp add: move_ctor_traits_def move_ctor_traits_true_def move_ctor_traits_false_def a)
next
  assume a: "move_or_copy_construct R (resource that) = Inr (r, r_src)
      \<and> move_or_copy_construct D (deleter that) = Inl e"
  then have b: "move_or_copy_construct D (deleter that) = Inl e" by simp
  have n: "\<not> nothrow_constructible D" using construct_Inl_not_nothrow [OF b] by simp
  {
    assume m: "nothrow_move_constructible R"
    show "move_ctor R D that cs =
           (Inl (if is_allocated that \<and> \<not> call_noexcept D \<and> call_throws D (deleter that) r
                 then Deleter_failed else e),
            that\<lparr>resource := r_src, m_allocated := False\<rparr>,
            cs @ (if is_allocated that then [(deleter that, r)] else []))"
      using a m
      by (simp add: move_ctor_def move_ctor_false_def deleter_holder_ctor_def n invoke_in_handler_eq
            is_allocated_def)
    show "\<not> is_allocated (that\<lparr>resource := r_src, m_allocated := False\<rparr>)"
      by (simp add: is_allocated_def)
  }
  {
    assume m: "\<not> nothrow_move_constructible R"
    have s: "r_src = resource that" using construct_copy_source [OF m] a by simp
    show "move_ctor R D that cs = (Inl e, that, cs)"
      using a m by (simp add: move_ctor_def move_ctor_false_def deleter_holder_ctor_def n s)
  }
next
  assume a: "move_or_copy_construct R (resource src) = Inr (r, r_src)
      \<and> move_or_copy_construct D (deleter src) = Inl e"
  then have b: "move_or_copy_construct D (deleter src) = Inl e" by simp
  have n: "\<not> nothrow_constructible D" using construct_Inl_not_nothrow [OF b] by simp
  from a have c: "move_or_copy_construct R (resource src) = Inr (r, r_src)" by simp
  have v: "r = resource src" using construct_Inr_value [OF c] .
  {
    assume m: "nothrow_move_constructible R"
    show "move_ctor_traits R D Tr src cs =
           (Inl (if is_allocated_traits Tr src \<and> \<not> call_noexcept D
                    \<and> call_throws D (deleter src) r
                 then Deleter_failed else e),
            src\<lparr>resource := tr_make_default Tr\<rparr>,
            cs @ (if is_allocated_traits Tr src then [(deleter src, r)] else []))"
      using a m
      by (simp add: move_ctor_traits_def move_ctor_traits_false_def deleter_holder_ctor_def n
            invoke_in_handler_eq is_allocated_traits_def set_deallocated_traits_def v)
    {
      assume "conforming Tr"
      then show "\<not> is_allocated_traits Tr (src\<lparr>resource := tr_make_default Tr\<rparr>)"
        by (simp add: is_allocated_traits_def conforming_def)
    }
  }
  {
    assume m: "\<not> nothrow_move_constructible R"
    have s: "r_src = resource src" using construct_copy_source [OF m] a by simp
    show "move_ctor_traits R D Tr src cs = (Inl e, src, cs)"
      using a m
      by (simp add: move_ctor_traits_def move_ctor_traits_false_def deleter_holder_ctor_def n s)
  }
qed

theorem move_construct_deleter_failure_witness:
  "nothrow_move_constructible handle_resource
   \<and> move_or_copy_construct handle_resource 7 = Inr (7, 0)
   \<and> move_or_copy_construct fragile_deleter ''bad'' = Inl Construction_failed
   \<and> move_ctor handle_resource fragile_deleter
        \<lparr>resource = 7, deleter = ''bad'', m_allocated = True\<rparr> []
       = (Inl Construction_failed, \<lparr>resource = 0, deleter = ''bad'', m_allocated = False\<rparr>,
          [(''bad'', 7)])
   \<and> conforming fd_traits
   \<and> move_ctor_traits handle_resource fragile_deleter fd_traits
        \<lparr>resource = 7, deleter = ''bad''\<rparr> []
       = (Inl Construction_failed, \<lparr>resource = - 1, deleter = ''bad''\<rparr>, [(''bad'', 7)])
   \<and> \<not> nothrow_move_constructible fragile_resource
   \<and> move_or_copy_construct fragile_resource 7 = Inr (7, 7)
   \<and> move_ctor fragile_resource fragile_deleter
        \<lparr>resource = 7, deleter = ''bad'', m_allocated = True\<rparr> []
       = (Inl Construction_failed, \<lparr>resource = 7, deleter = ''bad'', m_allocated = True\<rparr>, [])
   \<and> move_ctor_traits fragile_resource fragile_deleter fd_traits
        \<lparr>resource = 7, deleter = ''bad''\<rparr> []
       = (Inl Construction_failed, \<lparr>resource = 7, deleter = ''bad''\<rparr>, [])
   \<and> move_or_copy_construct fragile_resource 13 = Inl Construction_failed
   \<and> move_ctor fragile_resource fragile_deleter
        \<lparr>resource = 13, deleter = ''close'', m_allocated = True\<rparr> []
       = (Inl Construction_failed, \<lparr>resource = 13, deleter = ''close'', m_allocated = True\<rparr>, [])"
  using move_construct_deleter_failure
    [where R = handle_resource and D = fragile_deleter and cs = "[]" and e = Construction_failed
       and that = "\<lparr>resource = 7, deleter = ''bad'', m_allocated = True\<rparr>"
       and r = 7 and r_src = 0 and Tr = fd_traits
       and src = "\<lparr>resource = 7, deleter = ''bad''\<rparr>"]
    move_construct_deleter_failure
    [where R = fragile_resource and D = fragile_deleter and cs = "[]" and e = Construction_failed
       and that = "\<lparr>resource = 7, deleter = ''bad'', m_allocated = True\<rparr>"
       and r = 7 and r_src = 7 and Tr = fd_traits
       and src = "\<lparr>resource = 7, deleter = ''bad''\<rparr>"]
    move_construct_deleter_failure
    [where R = fragile_resource and D = fragile_deleter and cs = "[]" and e = Construction_failed
       and that = "\<lparr>resource = 13, deleter = ''close'', m_allocated = True\<rparr>"
       and Tr = fd_traits and src = "\<lparr>resource = 13, deleter = ''close''\<rparr>"]
  by (simp add: value_ops_defs is_allocated_def is_allocated_traits_def conforming_def example_defs)

subsection \<open>Reset with a new resource\<close>







subsection \<open>Swap\<close>

text \<open>
  Claim C6, as written, fails: it says that on an exceptional exit both guards hold
  their resource, deleter and allocation state of before the call. The handler swaps
  back the part that was swapped first; the part whose swap threw stays as that swap
  left it. With the resource \<open>fd_resource\<close> (nothrow swappable) and the deleter
  \<open>fragile_deleter\<close> (whose swap throws after it has assigned the second operand to the
  first), the swap of an allocated guard holding 7 and \<open>''bad''\<close> with a guard holding
  8 and \<open>''close''\<close> exits with the exception, and the first guard, still allocated
  and still holding 7, now has the deleter \<open>''close''\<close>.
\<close>

theorem swap_failure_keeps_changed_part_counterexample:
  "swap_requires fd_resource fragile_deleter
   \<and> swap fd_resource fragile_deleter
        \<lparr>resource = 7, deleter = ''bad'', m_allocated = True\<rparr>
        \<lparr>resource = 8, deleter = ''close'', m_allocated = False\<rparr>
       = (Some Swap_failed, \<lparr>resource = 7, deleter = ''close'', m_allocated = True\<rparr>,
          \<lparr>resource = 8, deleter = ''close'', m_allocated = False\<rparr>)
   \<and> \<lparr>resource = 7 :: int, deleter = ''close'', m_allocated = True\<rparr>
       \<noteq> \<lparr>resource = 7, deleter = ''bad'', m_allocated = True\<rparr>"
  by (simp add: value_ops_defs data_defs example_defs)

text \<open>
  Claim C6, amended. Where the member \<^verbatim>\<open>swap\<close> is enabled (one of the resource and
  the deleter is nothrow swappable): when the resource is nothrow swappable, the
  resources are swapped first, and if the swap of the deleters then throws, the
  resources are swapped back and the exception is rethrown; when only the deleter is
  nothrow swappable, the deleters are swapped first and swapped back if the swap of
  the resources throws. So on every exceptional exit the part that was swapped first
  has its value of before the call in both guards, the allocated flags are untouched,
  and the part whose swap threw holds what that swap left in its operands. The swap
  is all-or-nothing (both guards are as before the call) whenever the swap that throws
  leaves its own operands as they were.
\<close>

theorem swap_failure_rolls_back:
  "swap_requires R D \<longrightarrow>
      (nothrow_swappable R \<and> invoke_swap D (deleter a) (deleter b) = Inl (e, da, db) \<longrightarrow>
         swap R D a b = (Some e, a\<lparr>deleter := da\<rparr>, b\<lparr>deleter := db\<rparr>))
      \<and> (nothrow_swappable D \<and> invoke_swap R (resource a) (resource b) = Inl (e, ra, rb) \<longrightarrow>
         swap R D a b = (Some e, a\<lparr>resource := ra\<rparr>, b\<lparr>resource := rb\<rparr>))
      \<and> (swap R D a b = (Some e, a', b') \<longrightarrow>
         m_allocated a' = m_allocated a \<and> m_allocated b' = m_allocated b
         \<and> (nothrow_swappable R \<longrightarrow>
              resource a' = resource a \<and> resource b' = resource b
              \<and> (deleter a', deleter b') = swap_failure_leaves D (deleter a) (deleter b))
         \<and> (\<not> nothrow_swappable R \<longrightarrow>
              deleter a' = deleter a \<and> deleter b' = deleter b
              \<and> (resource a', resource b') = swap_failure_leaves R (resource a) (resource b))
         \<and> (swap_failure_leaves R (resource a) (resource b) = (resource a, resource b)
              \<and> swap_failure_leaves D (deleter a) (deleter b) = (deleter a, deleter b) \<longrightarrow>
              a' = a \<and> b' = b))
      \<and> (nothrow_swappable R \<and> invoke_swap D (deleter h) (deleter k) = Inl (e, da, db) \<longrightarrow>
         swap_traits R D h k = (Some e, h\<lparr>deleter := da\<rparr>, k\<lparr>deleter := db\<rparr>))
      \<and> (nothrow_swappable D \<and> invoke_swap R (resource h) (resource k) = Inl (e, ra, rb) \<longrightarrow>
         swap_traits R D h k = (Some e, h\<lparr>resource := ra\<rparr>, k\<lparr>resource := rb\<rparr>))
      \<and> (swap_traits R D h k = (Some e, h', k') \<longrightarrow>
         (nothrow_swappable R \<longrightarrow>
              resource h' = resource h \<and> resource k' = resource k
              \<and> (deleter h', deleter k') = swap_failure_leaves D (deleter h) (deleter k))
         \<and> (\<not> nothrow_swappable R \<longrightarrow>
              deleter h' = deleter h \<and> deleter k' = deleter k
              \<and> (resource h', resource k') = swap_failure_leaves R (resource h) (resource k))
         \<and> (swap_failure_leaves R (resource h) (resource k) = (resource h, resource k)
              \<and> swap_failure_leaves D (deleter h) (deleter k) = (deleter h, deleter k) \<longrightarrow>
              h' = h \<and> k' = k))"
proof (intro impI conjI)
  assume r: "swap_requires R D"
  {
    assume x: "nothrow_swappable R \<and> invoke_swap D (deleter a) (deleter b) = Inl (e, da, db)"
    then have y: "invoke_swap D (deleter a) (deleter b) = Inl (e, da, db)" by simp
    have n: "\<not> nothrow_swappable D" using swap_Inl_not_nothrow [OF y] by simp
    show "swap R D a b = (Some e, a\<lparr>deleter := da\<rparr>, b\<lparr>deleter := db\<rparr>)"
      using x by (simp add: swap_def swap_impl_true_false_def n swap_nothrow)
  }
  {
    assume x: "nothrow_swappable D \<and> invoke_swap R (resource a) (resource b) = Inl (e, ra, rb)"
    then have y: "invoke_swap R (resource a) (resource b) = Inl (e, ra, rb)" by simp
    have n: "\<not> nothrow_swappable R" using swap_Inl_not_nothrow [OF y] by simp
    show "swap R D a b = (Some e, a\<lparr>resource := ra\<rparr>, b\<lparr>resource := rb\<rparr>)"
      using x by (simp add: swap_def swap_impl_false_false_def n swap_nothrow)
  }
  {
    assume x: "nothrow_swappable R \<and> invoke_swap D (deleter h) (deleter k) = Inl (e, da, db)"
    then have y: "invoke_swap D (deleter h) (deleter k) = Inl (e, da, db)" by simp
    have n: "\<not> nothrow_swappable D" using swap_Inl_not_nothrow [OF y] by simp
    show "swap_traits R D h k = (Some e, h\<lparr>deleter := da\<rparr>, k\<lparr>deleter := db\<rparr>)"
      using x by (simp add: swap_traits_def swap_impl_traits_true_false_def n swap_nothrow)
  }
  {
    assume x: "nothrow_swappable D \<and> invoke_swap R (resource h) (resource k) = Inl (e, ra, rb)"
    then have y: "invoke_swap R (resource h) (resource k) = Inl (e, ra, rb)" by simp
    have n: "\<not> nothrow_swappable R" using swap_Inl_not_nothrow [OF y] by simp
    show "swap_traits R D h k = (Some e, h\<lparr>resource := ra\<rparr>, k\<lparr>resource := rb\<rparr>)"
      using x by (simp add: swap_traits_def swap_impl_traits_false_false_def n swap_nothrow)
  }
  {
    assume f: "swap R D a b = (Some e, a', b')"
    note c = swap_failure_cases [OF r f]
    show "m_allocated a' = m_allocated a" "m_allocated b' = m_allocated b"
      using c by (simp_all split: if_splits)
    {
      assume "nothrow_swappable R"
      with c show "resource a' = resource a" "resource b' = resource b"
        "(deleter a', deleter b') = swap_failure_leaves D (deleter a) (deleter b)"
        by simp_all
    }
    {
      assume "\<not> nothrow_swappable R"
      with c show "deleter a' = deleter a" "deleter b' = deleter b"
        "(resource a', resource b') = swap_failure_leaves R (resource a) (resource b)"
        by simp_all
    }
    {
      assume "swap_failure_leaves R (resource a) (resource b) = (resource a, resource b)
              \<and> swap_failure_leaves D (deleter a) (deleter b) = (deleter a, deleter b)"
      with c show "a' = a" "b' = b" by (simp_all split: if_splits)
    }
  }
  {
    assume f: "swap_traits R D h k = (Some e, h', k')"
    note c = swap_traits_failure_cases [OF r f]
    {
      assume "nothrow_swappable R"
      with c show "resource h' = resource h" "resource k' = resource k"
        "(deleter h', deleter k') = swap_failure_leaves D (deleter h) (deleter k)"
        by simp_all
    }
    {
      assume "\<not> nothrow_swappable R"
      with c show "deleter h' = deleter h" "deleter k' = deleter k"
        "(resource h', resource k') = swap_failure_leaves R (resource h) (resource k)"
        by simp_all
    }
    {
      assume "swap_failure_leaves R (resource h) (resource k) = (resource h, resource k)
              \<and> swap_failure_leaves D (deleter h) (deleter k) = (deleter h, deleter k)"
      with c show "h' = h" "k' = k" by (simp_all split: if_splits)
    }
  }
qed

theorem swap_failure_rolls_back_witness:
  "swap_requires fd_resource fragile_deleter
   \<and> nothrow_swappable fd_resource
   \<and> invoke_swap fd_resource 7 8 = Inr (8, 7)
   \<and> invoke_swap fragile_deleter ''bad'' ''close'' = Inl (Swap_failed, ''close'', ''close'')
   \<and> swap fd_resource fragile_deleter
        \<lparr>resource = 7, deleter = ''bad'', m_allocated = True\<rparr>
        \<lparr>resource = 8, deleter = ''close'', m_allocated = False\<rparr>
       = (Some Swap_failed, \<lparr>resource = 7, deleter = ''close'', m_allocated = True\<rparr>,
          \<lparr>resource = 8, deleter = ''close'', m_allocated = False\<rparr>)
   \<and> swap_traits fd_resource fragile_deleter
        \<lparr>resource = 7, deleter = ''bad''\<rparr> \<lparr>resource = 8, deleter = ''close''\<rparr>
       = (Some Swap_failed, \<lparr>resource = 7, deleter = ''close''\<rparr>,
          \<lparr>resource = 8, deleter = ''close''\<rparr>)
   \<and> swap_requires fragile_resource fn_deleter
   \<and> nothrow_swappable fn_deleter
   \<and> invoke_swap fn_deleter ''free'' ''close'' = Inr (''close'', ''free'')
   \<and> invoke_swap fragile_resource 13 8 = Inl (Swap_failed, 13, 8)
   \<and> swap_failure_leaves fragile_resource 13 8 = (13, 8)
   \<and> swap_failure_leaves fn_deleter ''free'' ''close'' = (''free'', ''close'')
   \<and> swap fragile_resource fn_deleter
        \<lparr>resource = 13, deleter = ''free'', m_allocated = True\<rparr>
        \<lparr>resource = 8, deleter = ''close'', m_allocated = False\<rparr>
       = (Some Swap_failed, \<lparr>resource = 13, deleter = ''free'', m_allocated = True\<rparr>,
          \<lparr>resource = 8, deleter = ''close'', m_allocated = False\<rparr>)
   \<and> swap_traits fragile_resource fn_deleter
        \<lparr>resource = 13, deleter = ''free''\<rparr> \<lparr>resource = 8, deleter = ''close''\<rparr>
       = (Some Swap_failed, \<lparr>resource = 13, deleter = ''free''\<rparr>,
          \<lparr>resource = 8, deleter = ''close''\<rparr>)"
  using swap_failure_rolls_back
    [where R = fd_resource and D = fragile_deleter and e = Swap_failed
       and da = "''close''" and db = "''close''" and ra = 7 and rb = 8
       and a = "\<lparr>resource = 7, deleter = ''bad'', m_allocated = True\<rparr>"
       and b = "\<lparr>resource = 8, deleter = ''close'', m_allocated = False\<rparr>"
       and a' = "\<lparr>resource = 7, deleter = ''close'', m_allocated = True\<rparr>"
       and b' = "\<lparr>resource = 8, deleter = ''close'', m_allocated = False\<rparr>"
       and h = "\<lparr>resource = 7, deleter = ''bad''\<rparr>"
       and k = "\<lparr>resource = 8, deleter = ''close''\<rparr>"
       and h' = "\<lparr>resource = 7, deleter = ''close''\<rparr>"
       and k' = "\<lparr>resource = 8, deleter = ''close''\<rparr>"]
    swap_failure_rolls_back
    [where R = fragile_resource and D = fn_deleter and e = Swap_failed
       and ra = 13 and rb = 8 and da = "''free''" and db = "''close''"
       and a = "\<lparr>resource = 13, deleter = ''free'', m_allocated = True\<rparr>"
       and b = "\<lparr>resource = 8, deleter = ''close'', m_allocated = False\<rparr>"
       and a' = "\<lparr>resource = 13, deleter = ''free'', m_allocated = True\<rparr>"
       and b' = "\<lparr>resource = 8, deleter = ''close'', m_allocated = False\<rparr>"
       and h = "\<lparr>resource = 13, deleter = ''free''\<rparr>"
       and k = "\<lparr>resource = 8, deleter = ''close''\<rparr>"
       and h' = "\<lparr>resource = 13, deleter = ''free''\<rparr>"
       and k' = "\<lparr>resource = 8, deleter = ''close''\<rparr>"]
  by (simp add: swap_requires_def invoke_swap_def example_defs)

subsection \<open>The state derived from the traits\<close>

text \<open>
  Claim C7, as written, fails: it says that the guard is unallocated exactly when the
  stored resource equals the default value of the traits. The traits may classify
  several values as unallocated, of which the default is one, and a guard can be
  constructed from any of them. With the conforming traits \<open>fd_traits\<close> (every
  negative value is unallocated, the default is \<open>- 1\<close>), the guard constructed from
  \<open>- 2\<close> is unallocated and stores \<open>- 2\<close>.
\<close>

theorem traits_unallocated_not_default_counterexample:
  "use_deallocated_state fd_traits \<and> conforming fd_traits
   \<and> data_ctor_traits fd_resource fn_deleter fd_traits (- 2) ''close'' []
       = (Inr \<lparr>resource = - 2, deleter = ''close''\<rparr>, [])
   \<and> \<not> is_allocated_traits fd_traits \<lparr>resource = - 2, deleter = ''close''\<rparr>
   \<and> resource \<lparr>resource = - 2 :: int, deleter = ''close''\<rparr> \<noteq> tr_make_default fd_traits"
  by (simp add: value_ops_defs holder_defs data_traits_defs example_defs)

text \<open>
  Claim C7, amended. The specialization is selected when the traits have both members,
  the resource is constructible from the default, \<^verbatim>\<open>make_default()\<close> is
  \<^verbatim>\<open>noexcept\<close> and the resource is nothrow assignable from it. Its data has no
  boolean flag (it is determined by the resource and the deleter it stores):
  \<^verbatim>\<open>allocated()\<close> is the traits' predicate on the stored resource, and marking the
  guard deallocated assigns the default value to the resource and changes nothing
  else. With conforming traits, a guard marked deallocated is unallocated, and every
  guard whose stored resource equals the default value is unallocated. (The converse
  is what the counterexample refutes.)
\<close>

theorem traits_derived_state:
  "use_deallocated_state Tr =
     (has_is_allocated Tr \<and> has_make_default Tr \<and> resource_constructible_from_default Tr
      \<and> make_default_noexcept Tr \<and> resource_nothrow_assignable_from_default Tr)
   \<and> g = \<lparr>resource = resource g, deleter = deleter g\<rparr>
   \<and> is_allocated_traits Tr g = tr_is_allocated Tr (resource g)
   \<and> set_deallocated_traits Tr g = g\<lparr>resource := tr_make_default Tr\<rparr>
   \<and> resource (set_deallocated_traits Tr g) = tr_make_default Tr
   \<and> deleter (set_deallocated_traits Tr g) = deleter g
   \<and> (conforming Tr \<longrightarrow>
        \<not> is_allocated_traits Tr (set_deallocated_traits Tr g)
        \<and> (resource g = tr_make_default Tr \<longrightarrow> \<not> is_allocated_traits Tr g))"
  by (auto simp: use_deallocated_state_def has_deallocated_state_def has_custom_default_def
        is_allocated_traits_def set_deallocated_traits_def conforming_def)

theorem traits_derived_state_witness:
  "conforming fd_traits
   \<and> use_deallocated_state fd_traits
   \<and> set_deallocated_traits fd_traits \<lparr>resource = 7, deleter = ''close''\<rparr>
       = \<lparr>resource = - 1, deleter = ''close''\<rparr>
   \<and> resource \<lparr>resource = - 1 :: int, deleter = ''close''\<rparr> = tr_make_default fd_traits
   \<and> \<not> is_allocated_traits fd_traits \<lparr>resource = - 1, deleter = ''close''\<rparr>
   \<and> is_allocated_traits fd_traits \<lparr>resource = 7, deleter = ''close''\<rparr>"
  using traits_derived_state
    [where Tr = fd_traits and g = "\<lparr>resource = 7, deleter = ''close''\<rparr>"]
    traits_derived_state
    [where Tr = fd_traits and g = "\<lparr>resource = - 1, deleter = ''close''\<rparr>"]
  by (simp add: conforming_def fd_traits_def)

subsection \<open>Checked construction\<close>

text \<open>
  Claim C8. \<^verbatim>\<open>make_unique_resource_checked(res, invalid, del)\<close> compares \<open>res\<close>
  with \<open>invalid\<close> by equality.
  If they are unequal and neither the construction of the resource nor that of the
  deleter throws, it returns, without invoking a deleter, the allocated guard that
  holds \<open>res\<close> and \<open>del\<close>, and destroying that guard invokes \<open>del\<close> on \<open>res\<close>
  exactly once; whenever it returns a guard it is this one, and if it throws instead,
  \<open>del\<close> has been invoked on \<open>res\<close> exactly once (claim C3).
  If they are equal and neither the default construction of the resource nor the
  construction of the deleter throws, it returns, without invoking a deleter, an
  unallocated guard that stores \<open>del\<close>, and destroying that guard invokes nothing;
  whenever it returns a guard the guard is unallocated and stores \<open>del\<close>, and if it
  throws instead, no deleter has been invoked.
\<close>

theorem make_unique_resource_checked_guard:
  "(res \<noteq> invalid \<longrightarrow>
      (\<not> isl (move_or_copy_construct R res) \<and> \<not> isl (move_or_copy_construct D del) \<longrightarrow>
         make_unique_resource_checked R D res invalid del cs
           = (Inr \<lparr>resource = res, deleter = del, m_allocated = True\<rparr>, cs))
      \<and> is_allocated \<lparr>resource = res, deleter = del, m_allocated = True\<rparr>
      \<and> snd (snd (destructor D \<lparr>resource = res, deleter = del, m_allocated = True\<rparr> cs))
           = cs @ [(del, res)]
      \<and> (case make_unique_resource_checked R D res invalid del cs of
            (Inr g, cs1) \<Rightarrow>
              g = \<lparr>resource = res, deleter = del, m_allocated = True\<rparr> \<and> cs1 = cs
          | (Inl x, cs1) \<Rightarrow> cs1 = cs @ [(del, res)]))
   \<and> (res = invalid \<longrightarrow>
      (\<not> default_ctor_throws R \<and> \<not> isl (move_or_copy_construct D del) \<longrightarrow>
         make_unique_resource_checked R D res invalid del cs
           = (Inr \<lparr>resource = value_initialized R, deleter = del, m_allocated = False\<rparr>, cs))
      \<and> (case make_unique_resource_checked R D res invalid del cs of
            (Inr g, cs1) \<Rightarrow>
              \<not> is_allocated g \<and> deleter g = del \<and> cs1 = cs \<and> destructor D g cs1 = (None, g, cs)
          | (Inl x, cs1) \<Rightarrow> cs1 = cs))"
proof (intro conjI impI)
  assume ne: "res \<noteq> invalid"
  then have m: "make_unique_resource_checked R D res invalid del cs = data_ctor R D res del cs"
    by (simp add: make_unique_resource_checked_def)
  {
    assume "\<not> isl (move_or_copy_construct R res) \<and> \<not> isl (move_or_copy_construct D del)"
    then show "make_unique_resource_checked R D res invalid del cs
           = (Inr \<lparr>resource = res, deleter = del, m_allocated = True\<rparr>, cs)"
      by (simp add: m data_ctor_no_throw)
  }
  show "is_allocated \<lparr>resource = res, deleter = del, m_allocated = True\<rparr>"
    by (simp add: is_allocated_def)
  show "snd (snd (destructor D \<lparr>resource = res, deleter = del, m_allocated = True\<rparr> cs))
             = cs @ [(del, res)]"
    by (simp add: destructor_log is_allocated_def)
  show "case make_unique_resource_checked R D res invalid del cs of
            (Inr g, cs1) \<Rightarrow>
              g = \<lparr>resource = res, deleter = del, m_allocated = True\<rparr> \<and> cs1 = cs
          | (Inl x, cs1) \<Rightarrow> cs1 = cs @ [(del, res)]"
    using data_ctor_Inr [of R D res del cs] data_ctor_Inl [of R D res del cs]
    by (simp add: m split: prod.splits sum.splits)
next
  assume eq: "res = invalid"
  then have m: "make_unique_resource_checked R D res invalid del cs
      = (data_ctor_default R D None del, cs)"
    by (simp add: make_unique_resource_checked_def)
  {
    assume "\<not> default_ctor_throws R \<and> \<not> isl (move_or_copy_construct D del)"
    then show "make_unique_resource_checked R D res invalid del cs
           = (Inr \<lparr>resource = value_initialized R, deleter = del, m_allocated = False\<rparr>, cs)"
      by (simp add: m data_ctor_default_no_throw)
  }
  show "case make_unique_resource_checked R D res invalid del cs of
            (Inr g, cs1) \<Rightarrow>
              \<not> is_allocated g \<and> deleter g = del \<and> cs1 = cs \<and> destructor D g cs1 = (None, g, cs)
          | (Inl x, cs1) \<Rightarrow> cs1 = cs"
    using data_ctor_default_Inr [of R D None del]
    by (simp add: m destructor_def reset_unallocated split: prod.splits sum.splits)
qed

theorem make_unique_resource_checked_guard_witness:
  "(7 :: int) \<noteq> 5
   \<and> \<not> isl (move_or_copy_construct fragile_resource 7)
   \<and> \<not> isl (move_or_copy_construct fragile_deleter ''del'')
   \<and> make_unique_resource_checked fragile_resource fragile_deleter 7 5 ''del'' []
       = (Inr \<lparr>resource = 7, deleter = ''del'', m_allocated = True\<rparr>, [])
   \<and> snd (snd (destructor fragile_deleter \<lparr>resource = 7, deleter = ''del'', m_allocated = True\<rparr> []))
       = [(''del'', 7)]
   \<and> \<not> default_ctor_throws fragile_resource
   \<and> make_unique_resource_checked fragile_resource fragile_deleter 5 5 ''del'' []
       = (Inr \<lparr>resource = 0, deleter = ''del'', m_allocated = False\<rparr>, [])
   \<and> destructor fragile_deleter \<lparr>resource = 0, deleter = ''del'', m_allocated = False\<rparr> []
       = (None, \<lparr>resource = 0, deleter = ''del'', m_allocated = False\<rparr>, [])"
  using make_unique_resource_checked_guard
    [where R = fragile_resource and D = fragile_deleter and res = 7 and invalid = 5
       and del = "''del''" and cs = "[]"]
    make_unique_resource_checked_guard
    [where R = fragile_resource and D = fragile_deleter and res = 5 and invalid = 5
       and del = "''del''" and cs = "[]"]
  by (simp add: value_ops_defs holder_defs data_defs guard_defs example_defs)

subsection \<open>Release\<close>

text \<open>
  Claim C9. \<^verbatim>\<open>release()\<close> leaves the log of deleter invocations as it was and the
  guard unallocated, and the destructor of the released guard returns normally with
  the log unchanged: it invokes the deleter zero times. For the specialization that
  derives the state from the traits, this is under the documented requirement on the
  traits that the default resource is not allocated.
\<close>

theorem release_disarms:
  "(case release g cs of (g', cs') \<Rightarrow>
      cs' = cs \<and> \<not> is_allocated g' \<and> destructor D g' cs' = (None, g', cs))
   \<and> (conforming Tr \<longrightarrow>
       (case release_traits Tr h cs of (h', cs') \<Rightarrow>
          cs' = cs \<and> \<not> is_allocated_traits Tr h'
          \<and> destructor_traits D Tr h' cs' = (None, h', cs)))"
  by (simp add: release_def release_traits_def destructor_def destructor_traits_def
        reset_unallocated reset_traits_unallocated set_deallocated_unallocated
        set_deallocated_traits_unallocated)

theorem release_disarms_witness:
  "conforming fd_traits
   \<and> release_traits fd_traits \<lparr>resource = 7, deleter = ''close''\<rparr> []
       = (\<lparr>resource = - 1, deleter = ''close''\<rparr>, [])
   \<and> destructor_traits fn_deleter fd_traits \<lparr>resource = - 1, deleter = ''close''\<rparr> []
       = (None, \<lparr>resource = - 1, deleter = ''close''\<rparr>, [])
   \<and> release \<lparr>resource = 7, deleter = ''close'', m_allocated = True\<rparr> []
       = (\<lparr>resource = 7, deleter = ''close'', m_allocated = False\<rparr>, [])
   \<and> destructor fn_deleter \<lparr>resource = 7, deleter = ''close'', m_allocated = False\<rparr> []
       = (None, \<lparr>resource = 7, deleter = ''close'', m_allocated = False\<rparr>, [])"
  using release_disarms
    [where g = "\<lparr>resource = 7, deleter = ''close'', m_allocated = True\<rparr>" and cs = "[]"
       and D = fn_deleter and Tr = fd_traits and h = "\<lparr>resource = 7, deleter = ''close''\<rparr>"]
  by (simp add: value_ops_defs data_defs guard_defs data_traits_defs guard_traits_defs example_defs)

subsection \<open>A deleter that throws\<close>

text \<open>
  Claim C10, as written, fails for the move assignment: the operator is declared
  \<^verbatim>\<open>noexcept\<close> when the resource and the deleter are both nothrow assignable, whether
  or not the deleter call can throw. With the resource \<open>fd_resource\<close> and the deleter
  \<open>throwing_functor\<close> (nothrow assignable, its call throws on the resource 99), the
  exception that the deleter throws in the implicit \<^verbatim>\<open>reset()\<close> meets that
  specification: \<^verbatim>\<open>std::terminate\<close> is called, and there is no exceptional exit
  after which the guard could be reset or destroyed.
\<close>

theorem move_assign_terminates_counterexample:
  "is_allocated \<lparr>resource = 99 :: int, deleter = ''close'', m_allocated = True\<rparr>
   \<and> \<not> call_noexcept throwing_functor \<and> call_throws throwing_functor ''close'' 99
   \<and> nothrow_move_assignable_data fd_resource throwing_functor
   \<and> move_assign fd_resource throwing_functor
        \<lparr>resource = 99, deleter = ''close'', m_allocated = True\<rparr>
        \<lparr>resource = 3, deleter = ''free'', m_allocated = True\<rparr> []
       = (Terminated, \<lparr>resource = 99, deleter = ''close'', m_allocated = True\<rparr>,
          \<lparr>resource = 3, deleter = ''free'', m_allocated = True\<rparr>, [(''close'', 99)])"
  by (simp add: value_ops_defs data_defs guard_defs example_defs)

text \<open>
  Claim C10, amended. When the guard is allocated and the invocation of the deleter on
  its resource throws, \<^verbatim>\<open>reset()\<close> exits with that exception after the one
  invocation and leaves the guard as it was: allocated, with the same resource and
  deleter. The same holds of the destructor, and of the move assignment when its
  operator is not \<^verbatim>\<open>noexcept\<close> (the resource or the deleter is not nothrow
  assignable): its \<^verbatim>\<open>reset()\<close> comes first, and the exception reaches the caller
  with both the guard and the move source as they were. A subsequent \<^verbatim>\<open>reset()\<close>
  or destruction therefore invokes the deleter on the same resource again.
\<close>

theorem reset_failure_keeps_state:
  "(is_allocated g \<and> \<not> call_noexcept D \<and> call_throws D (deleter g) (resource g) \<longrightarrow>
      reset D g cs = (Some Deleter_failed, g, cs @ [(deleter g, resource g)])
      \<and> destructor D g cs = (Some Deleter_failed, g, cs @ [(deleter g, resource g)])
      \<and> (\<not> nothrow_move_assignable_data R D \<longrightarrow>
           move_assign R D g that cs
             = (Thrown Deleter_failed, g, that, cs @ [(deleter g, resource g)]))
      \<and> reset D g (cs @ [(deleter g, resource g)])
          = (Some Deleter_failed, g, cs @ [(deleter g, resource g), (deleter g, resource g)])
      \<and> destructor D g (cs @ [(deleter g, resource g)])
          = (Some Deleter_failed, g, cs @ [(deleter g, resource g), (deleter g, resource g)]))
   \<and> (is_allocated_traits Tr h \<and> \<not> call_noexcept D \<and> call_throws D (deleter h) (resource h) \<longrightarrow>
      reset_traits D Tr h cs = (Some Deleter_failed, h, cs @ [(deleter h, resource h)])
      \<and> destructor_traits D Tr h cs = (Some Deleter_failed, h, cs @ [(deleter h, resource h)])
      \<and> (\<not> nothrow_move_assignable_data R D \<longrightarrow>
           move_assign_traits R D Tr h that' cs
             = (Thrown Deleter_failed, h, that', cs @ [(deleter h, resource h)]))
      \<and> reset_traits D Tr h (cs @ [(deleter h, resource h)])
          = (Some Deleter_failed, h, cs @ [(deleter h, resource h), (deleter h, resource h)])
      \<and> destructor_traits D Tr h (cs @ [(deleter h, resource h)])
          = (Some Deleter_failed, h, cs @ [(deleter h, resource h), (deleter h, resource h)]))"
  by (simp add: reset_allocated reset_traits_allocated destructor_def destructor_traits_def
        move_assign_def move_assign_body_def move_assign_traits_def move_assign_body_traits_def
        leave_def)

theorem reset_failure_keeps_state_witness:
  "is_allocated \<lparr>resource = 99 :: int, deleter = ''close'', m_allocated = True\<rparr>
   \<and> \<not> call_noexcept fragile_deleter \<and> call_throws fragile_deleter ''close'' 99
   \<and> \<not> nothrow_move_assignable_data fd_resource fragile_deleter
   \<and> reset fragile_deleter \<lparr>resource = 99, deleter = ''close'', m_allocated = True\<rparr> []
       = (Some Deleter_failed, \<lparr>resource = 99, deleter = ''close'', m_allocated = True\<rparr>,
          [(''close'', 99)])
   \<and> move_assign fd_resource fragile_deleter
        \<lparr>resource = 99, deleter = ''close'', m_allocated = True\<rparr>
        \<lparr>resource = 3, deleter = ''free'', m_allocated = True\<rparr> []
       = (Thrown Deleter_failed, \<lparr>resource = 99, deleter = ''close'', m_allocated = True\<rparr>,
          \<lparr>resource = 3, deleter = ''free'', m_allocated = True\<rparr>, [(''close'', 99)])
   \<and> destructor fragile_deleter \<lparr>resource = 99, deleter = ''close'', m_allocated = True\<rparr>
        [(''close'', 99)]
       = (Some Deleter_failed, \<lparr>resource = 99, deleter = ''close'', m_allocated = True\<rparr>,
          [(''close'', 99), (''close'', 99)])
   \<and> is_allocated_traits fd_traits \<lparr>resource = 99, deleter = ''close''\<rparr>
   \<and> reset_traits fragile_deleter fd_traits \<lparr>resource = 99, deleter = ''close''\<rparr> []
       = (Some Deleter_failed, \<lparr>resource = 99, deleter = ''close''\<rparr>, [(''close'', 99)])
   \<and> move_assign_traits fd_resource fragile_deleter fd_traits
        \<lparr>resource = 99, deleter = ''close''\<rparr> \<lparr>resource = 3, deleter = ''free''\<rparr> []
       = (Thrown Deleter_failed, \<lparr>resource = 99, deleter = ''close''\<rparr>,
          \<lparr>resource = 3, deleter = ''free''\<rparr>, [(''close'', 99)])
   \<and> destructor_traits fragile_deleter fd_traits \<lparr>resource = 99, deleter = ''close''\<rparr>
        [(''close'', 99)]
       = (Some Deleter_failed, \<lparr>resource = 99, deleter = ''close''\<rparr>,
          [(''close'', 99), (''close'', 99)])"
  using reset_failure_keeps_state
    [where D = fragile_deleter and R = fd_resource and cs = "[]" and Tr = fd_traits
       and g = "\<lparr>resource = 99, deleter = ''close'', m_allocated = True\<rparr>"
       and that = "\<lparr>resource = 3, deleter = ''free'', m_allocated = True\<rparr>"
       and h = "\<lparr>resource = 99, deleter = ''close''\<rparr>"
       and that' = "\<lparr>resource = 3, deleter = ''free''\<rparr>"]
  by (simp add: is_allocated_def is_allocated_traits_def nothrow_move_assignable_data_def
        nothrow_assignable_def example_defs)

end
